theory Spec2Isabelle
  imports Complex_Main "HOL-Library.Product_Lexorder"
begin

section \<open>Python values\<close>

text \<open>
  Python floats are modelled by the reals, extended by the three non-finite values where the
  code compares a value it has not yet validated. Finite floats are idealised: rounding is
  not modelled. Integers stay integers, since \<^verbatim>\<open>float(n)\<close> of an \<^verbatim>\<open>int\<close> is a partial
  operation in Python (it raises \<^verbatim>\<open>OverflowError\<close> beyond the double range).
\<close>

datatype pyfloat = Finite real | PosInf | NegInf | NaN

text \<open>
  A value handed to the predictor: \<^verbatim>\<open>None\<close>, a float, an int, or any other object, on
  which \<^verbatim>\<open>float()\<close> raises \<^verbatim>\<open>TypeError\<close> or \<^verbatim>\<open>ValueError\<close>.
\<close>

datatype pyval = PyNone | PyFloat pyfloat | PyInt int | PyOther

text \<open>A parsed JSON value (what \<^verbatim>\<open>json.load\<close> returns).\<close>

datatype json = JNull | JBool bool | JInt int | JFloat pyfloat | JStr string
  | JArr "json list" | JObj "(string \<times> json) list"

text \<open>A batch item is a dict read with \<^verbatim>\<open>item.get(key)\<close>: a missing key reads as \<^verbatim>\<open>None\<close>.\<close>

type_synonym item = "string \<Rightarrow> pyval"

text \<open>
  Exceptions are values. The text of a message is kept as its parts: what
  \<^verbatim>\<open>InvalidInputError\<close> says about a field, and the wrapper
  \<^verbatim>\<open>Invalid batch item {item}: {exc}\<close> that \<^verbatim>\<open>predict_batch\<close> adds.
\<close>

datatype message =
    Required string
  | MustBeNumber string
  | OutOfRange string real real pyfloat
  | InvalidBatchItem item message

datatype value_error =
    InsufficientData nat
  | SingleClass
  | MissingColumns "string list"
  | BroadcastShapes nat nat
  | CannotConvertNaN
  | EstimatorFailure

datatype error =
    InvalidInputError message
  | ValueError value_error
  | OverflowError
  | ZeroDivisionError
  | FloatingPointError
  | IndexError
  | KeyError "string list"
  | FileNotFoundError string
  | JSONDecodeError
  | UnpicklingError

text \<open>
  \<^verbatim>\<open>float(n)\<close> for an int: CPython rounds to 53 bits (half to even) and raises
  \<^verbatim>\<open>OverflowError\<close> when the result exceeds the largest double, that is from
  \<open>2^1024 - 2^970\<close> on.
\<close>

definition float_of_int :: "int \<Rightarrow> error + pyfloat" where
  "float_of_int n =
     (if 2 ^ 1024 - 2 ^ 970 \<le> \<bar>n\<bar> then Inl OverflowError else Inr (Finite (of_int n)))"

text \<open>\<^verbatim>\<open>float(value)\<close> inside \<^verbatim>\<open>try ... except (TypeError, ValueError)\<close>: the outer
  \<open>Inl\<close> is an exception that is not caught there, the inner \<open>None\<close> one that is.\<close>

fun py_float :: "pyval \<Rightarrow> error + pyfloat option" where
  "py_float PyNone = Inr None"
| "py_float PyOther = Inr None"
| "py_float (PyFloat x) = Inr (Some x)"
| "py_float (PyInt n) = (case float_of_int n of Inl e \<Rightarrow> Inl e | Inr x \<Rightarrow> Inr (Some x))"

text \<open>\<^verbatim>\<open>0.0 < t < 1.0\<close>: every comparison with NaN is false, and the infinities lie
  outside. The float that passes is finite, and is returned as a real.\<close>

fun open_unit :: "pyfloat \<Rightarrow> real option" where
  "open_unit (Finite x) = (if 0 < x \<and> x < 1 then Some x else None)"
| "open_unit PosInf = None"
| "open_unit NegInf = None"
| "open_unit NaN = None"

section \<open>The metadata document\<close>

record scaler_stats =
  scaler_mean :: "real list option"
  scaler_scale :: "real list option"

record metrics =
  accuracy :: real
  precision :: real
  recall :: real
  f1_score :: real

record imputation_stat =
  imputed_count :: nat
  median_used :: "pyfloat option"

text \<open>
  The keys of \<^verbatim>\<open>metadata.json\<close>, each absent (\<open>None\<close>) or present. The entries the
  code reads as numbers without a type test are typed as \<^verbatim>\<open>train_model\<close> writes them; the
  two thresholds are raw JSON, because the code tests their type with \<^verbatim>\<open>isinstance\<close>.
\<close>

record metadata =
  generated_at :: "string option"
  feature_names :: "string list option"
  class_counts :: "(int \<times> nat) list option"
  class_distribution :: "(int \<times> real) list option"
  imputation :: "(string \<times> imputation_stat) list option"
  coefficients :: "(string \<times> real) list option"
  intercept :: "real option"
  permutation_importance :: "(string \<times> real) list option"
  metrics_cv :: "metrics option"
  roc_auc :: "real option"
  recommended_threshold :: "json option"
  scaler :: "scaler_stats option"
  user_threshold :: "json option"
  user_threshold_set_at :: "string option"

definition empty_metadata :: metadata where
  "empty_metadata = \<lparr> generated_at = None, feature_names = None, class_counts = None,
     class_distribution = None, imputation = None, coefficients = None, intercept = None,
     permutation_importance = None, metrics_cv = None, roc_auc = None,
     recommended_threshold = None, scaler = None, user_threshold = None,
     user_threshold_set_at = None \<rparr>"

text \<open>What \<^verbatim>\<open>json.load\<close> gave: a JSON object, or some other JSON value
  (\<^verbatim>\<open>isinstance(self.metadata, dict)\<close> is false).\<close>

datatype metadata_doc = Dict metadata | NotDict

text \<open>\<^verbatim>\<open>self.metadata.get(key) if isinstance(self.metadata, dict) else None\<close>\<close>

fun md_get :: "(metadata \<Rightarrow> 'a option) \<Rightarrow> metadata_doc \<Rightarrow> 'a option" where
  "md_get key (Dict md) = key md"
| "md_get key NotDict = None"

section \<open>Threshold resolution\<close>

text \<open>
  \<^verbatim>\<open>isinstance(v, (float, int)) and 0.0 < float(v) < 1.0\<close>, then \<^verbatim>\<open>float(v)\<close>:
  \<open>Inr (Some t)\<close> when the test passes with value \<open>t\<close>, \<open>Inr None\<close> when it fails, and
  \<open>Inl\<close> when \<^verbatim>\<open>float(v)\<close> raises. A bool is an int in Python.
\<close>

fun numeric_in_open_unit :: "json option \<Rightarrow> error + real option" where
  "numeric_in_open_unit (Some (JFloat x)) = Inr (open_unit x)"
| "numeric_in_open_unit (Some (JInt n)) =
     (case float_of_int n of Inl e \<Rightarrow> Inl e | Inr x \<Rightarrow> Inr (open_unit x))"
| "numeric_in_open_unit (Some (JBool b)) = Inr (open_unit (Finite (if b then 1 else 0)))"
| "numeric_in_open_unit _ = Inr None"

text \<open>
  The environment variable \<^verbatim>\<open>PRED_THRESHOLD\<close>: \<^verbatim>\<open>if env_threshold:\<close> skips an unset
  or empty variable; \<^verbatim>\<open>float(env_threshold)\<close> is Python's parser of float literals, a
  parameter here (\<open>None\<close> when it raises \<^verbatim>\<open>ValueError\<close>, which the code catches).
\<close>

definition env_override :: "(string \<Rightarrow> pyfloat option) \<Rightarrow> string option \<Rightarrow> real option" where
  "env_override float_of_str env_threshold =
     (case env_threshold of
        None \<Rightarrow> None
      | Some s \<Rightarrow>
          if s = [] then None
          else (case float_of_str s of None \<Rightarrow> None | Some threshold \<Rightarrow> open_unit threshold))"

text \<open>\<^verbatim>\<open>Predictor._resolve_threshold\<close>\<close>

definition resolve_threshold ::
  "(string \<Rightarrow> pyfloat option) \<Rightarrow> string option \<Rightarrow> metadata_doc \<Rightarrow> error + real" where
  "resolve_threshold float_of_str env_threshold md =
     (case env_override float_of_str env_threshold of
        Some threshold \<Rightarrow> Inr threshold
      | None \<Rightarrow>
          (case numeric_in_open_unit (md_get user_threshold md) of
             Inl e \<Rightarrow> Inl e
           | Inr (Some user_defined) \<Rightarrow> Inr user_defined
           | Inr None \<Rightarrow>
               (case numeric_in_open_unit (md_get recommended_threshold md) of
                  Inl e \<Rightarrow> Inl e
                | Inr (Some recommended) \<Rightarrow> Inr recommended
                | Inr None \<Rightarrow> Inr (6 / 10))))"

text \<open>
  \<^verbatim>\<open>_resolve_threshold_with_source\<close> of main.py reads the metadata file itself: \<open>None\<close>
  when the file does not exist or \<^verbatim>\<open>json.load\<close> fails (\<^verbatim>\<open>JSONDecodeError\<close> is caught).
\<close>

datatype threshold_source = FromEnv | FromMetadataUser | FromMetadataRecommended | FromDefault

definition resolve_threshold_with_source ::
  "(string \<Rightarrow> pyfloat option) \<Rightarrow> string option \<Rightarrow> metadata_doc option
     \<Rightarrow> error + real \<times> threshold_source" where
  "resolve_threshold_with_source float_of_str env_threshold file =
     (case env_override float_of_str env_threshold of
        Some threshold \<Rightarrow> Inr (threshold, FromEnv)
      | None \<Rightarrow>
          (case file of
             Some (Dict md) \<Rightarrow>
               (case numeric_in_open_unit (user_threshold md) of
                  Inl e \<Rightarrow> Inl e
                | Inr (Some t) \<Rightarrow> Inr (t, FromMetadataUser)
                | Inr None \<Rightarrow>
                    (case numeric_in_open_unit (recommended_threshold md) of
                       Inl e \<Rightarrow> Inl e
                     | Inr (Some t) \<Rightarrow> Inr (t, FromMetadataRecommended)
                     | Inr None \<Rightarrow> Inr (6 / 10, FromDefault)))
           | _ \<Rightarrow> Inr (6 / 10, FromDefault)))"

section \<open>Feature specification and validation\<close>

definition FEATURES :: "string list" where
  "FEATURES = [''attendance'', ''marks'', ''internal_score'']"

definition BOUNDS :: "(string \<times> real \<times> real) list" where
  "BOUNDS = [(''attendance'', 0, 100), (''marks'', 0, 100),
             (''internal_score'', 0, 100), (''final_exam_score'', 0, 100)]"

text \<open>\<^verbatim>\<open>Predictor._validate_range\<close>. \<^verbatim>\<open>not (lo <= x <= hi)\<close> holds for NaN and for
  the infinities, so only a finite float is returned.\<close>

definition validate_range :: "string \<Rightarrow> pyval \<Rightarrow> error + real" where
  "validate_range name v =
     (if v = PyNone then Inl (InvalidInputError (Required name))
      else case py_float v of
        Inl e \<Rightarrow> Inl e
      | Inr None \<Rightarrow> Inl (InvalidInputError (MustBeNumber name))
      | Inr (Some numeric_value) \<Rightarrow>
          (case map_of BOUNDS name of
             None \<Rightarrow> Inl (KeyError [name])
           | Some (lo, hi) \<Rightarrow>
               (case numeric_value of
                  Finite x \<Rightarrow>
                    if lo \<le> x \<and> x \<le> hi then Inr x
                    else Inl (InvalidInputError (OutOfRange name lo hi numeric_value))
                | _ \<Rightarrow> Inl (InvalidInputError (OutOfRange name lo hi numeric_value)))))"

text \<open>The dict \<^verbatim>\<open>features\<close> that \<^verbatim>\<open>predict\<close> and \<^verbatim>\<open>predict_batch\<close> build, with its
  three fixed keys.\<close>

record features =
  attendance :: real
  marks :: real
  internal_score :: real

text \<open>\<^verbatim>\<open>[features[feat] for feat in FEATURES]\<close>\<close>

definition feature_vector :: "features \<Rightarrow> real list" where
  "feature_vector fs = [attendance fs, marks fs, internal_score fs]"

section \<open>Suspicion detector\<close>

text \<open>\<^verbatim>\<open>Predictor._collect_suspicion_markers\<close>. The final exam score is the optional
  value as validated (a float in the bounds, or \<^verbatim>\<open>None\<close>).\<close>

definition collect_suspicion_markers :: "features \<Rightarrow> real option \<Rightarrow> string list" where
  "collect_suspicion_markers fs final_exam =
     (if marks fs = 0 \<and> 60 \<le> internal_score fs
      then [''Marks are zero while internal score is high; please verify scores.''] else []) @
     (if attendance fs < 40 \<and> 80 \<le> marks fs
      then [''Attendance is very low compared to high marks. Double-check attendance entry.'']
      else []) @
     (case final_exam of
        None \<Rightarrow> []
      | Some score \<Rightarrow>
          if score < 20 \<and> 70 \<le> marks fs
          then [''Final exam score is low despite high overall marks; confirm final exam data.'']
          else [])"

section \<open>Explanation\<close>

text \<open>
  Arithmetic of two one-dimensional numpy arrays: equal lengths pair up, an array of length
  one is broadcast, any other pair of shapes raises \<^verbatim>\<open>ValueError\<close>.
\<close>

definition np_broadcast :: "real list \<Rightarrow> real list \<Rightarrow> error + (real \<times> real) list" where
  "np_broadcast xs ys =
     (if length xs = length ys then Inr (zip xs ys)
      else if length ys = 1 then Inr (map (\<lambda>x. (x, hd ys)) xs)
      else if length xs = 1 then Inr (map (\<lambda>y. (hd xs, y)) ys)
      else Inl (ValueError (BroadcastShapes (length xs) (length ys))))"

definition np_subtract :: "real list \<Rightarrow> real list \<Rightarrow> error + real list" where
  "np_subtract xs ys =
     (case np_broadcast xs ys of Inl e \<Rightarrow> Inl e | Inr ps \<Rightarrow> Inr (map (\<lambda>(x, y). x - y) ps))"

text \<open>
  numpy divides by zero without raising (the result is \<^verbatim>\<open>inf\<close> or \<^verbatim>\<open>nan\<close>, with a
  warning). Such a result is no real number; the model marks it as the outcome
  \<open>FloatingPointError\<close> (what numpy raises under \<^verbatim>\<open>np.seterr(divide='raise')\<close>), so that
  a division by zero is visible wherever it could happen.
\<close>

definition np_divide :: "real list \<Rightarrow> real list \<Rightarrow> error + real list" where
  "np_divide xs ys =
     (case np_broadcast xs ys of
        Inl e \<Rightarrow> Inl e
      | Inr ps \<Rightarrow>
          if 0 \<in> set (map snd ps) then Inl FloatingPointError
          else Inr (map (\<lambda>(x, y). x / y) ps))"

text \<open>\<^verbatim>\<open>self.metadata.get("scaler", {})\<close>\<close>

definition get_scaler :: "metadata_doc \<Rightarrow> scaler_stats" where
  "get_scaler md =
     (case md_get scaler md of
        None \<Rightarrow> \<lparr> scaler_mean = None, scaler_scale = None \<rparr>
      | Some s \<Rightarrow> s)"

text \<open>\<^verbatim>\<open>self.metadata.get("coefficients", {})\<close>\<close>

definition get_coefficients :: "metadata_doc \<Rightarrow> (string \<times> real) list" where
  "get_coefficients md = (case md_get metadata.coefficients md of None \<Rightarrow> [] | Some c \<Rightarrow> c)"

text \<open>\<^verbatim>\<open>d.get(key, default)\<close>\<close>

definition dict_get :: "(string \<times> 'a) list \<Rightarrow> string \<Rightarrow> 'a \<Rightarrow> 'a" where
  "dict_get d key dflt = (case map_of d key of None \<Rightarrow> dflt | Some v \<Rightarrow> v)"

text \<open>\<^verbatim>\<open>xs[i]\<close>, which raises \<^verbatim>\<open>IndexError\<close> out of range.\<close>

definition index :: "'a list \<Rightarrow> nat \<Rightarrow> error + 'a" where
  "index xs i = (if i < length xs then Inr (xs ! i) else Inl IndexError)"

text \<open>\<^verbatim>\<open>Predictor._standardize\<close>: \<^verbatim>\<open>np.where(scale == 0, 1.0, scale)\<close> replaces every zero
  of the scale vector before the division.\<close>

definition standardize_divisor :: "metadata_doc \<Rightarrow> real list" where
  "standardize_divisor md =
     (let scale = (case scaler_scale (get_scaler md) of None \<Rightarrow> [1, 1, 1] | Some s \<Rightarrow> s)
      in map (\<lambda>s. if s = 0 then 1 else s) scale)"

definition standardize :: "metadata_doc \<Rightarrow> real list \<Rightarrow> error + real list" where
  "standardize md raw_features =
     (let mean = (case scaler_mean (get_scaler md) of None \<Rightarrow> [0, 0, 0] | Some m \<Rightarrow> m);
          scale = standardize_divisor md
      in case np_subtract raw_features mean of
           Inl e \<Rightarrow> Inl e
         | Inr centred \<Rightarrow> np_divide centred scale)"

text \<open>The shapes with which \<^verbatim>\<open>_standardize\<close> succeeds on a vector of three features:
  each stored vector is absent, of length three, or of length one (which numpy broadcasts).\<close>

definition scaler_fits :: "metadata_doc \<Rightarrow> bool" where
  "scaler_fits md =
     ((case scaler_mean (get_scaler md) of None \<Rightarrow> True | Some m \<Rightarrow> length m = 3 \<or> length m = 1) \<and>
      (case scaler_scale (get_scaler md) of None \<Rightarrow> True | Some s \<Rightarrow> length s = 3 \<or> length s = 1))"

record top_reason =
  feature :: string
  effect :: string
  contribution :: real

record explanation =
  top_reasons :: "top_reason list"
  feature_importances :: "(string \<times> real) list"
  coefficients :: "(string \<times> real) list"

text \<open>\<^verbatim>\<open>Predictor._derive_top_reasons\<close>: \<^verbatim>\<open>sorted(..., key=abs, reverse=True)\<close> is a
  stable sort by descending absolute value.\<close>

definition derive_top_reasons :: "(string \<times> real) list \<Rightarrow> top_reason list" where
  "derive_top_reasons contributions =
     (let ranked = sort_key (\<lambda>item. - \<bar>snd item\<bar>) contributions
      in map (\<lambda>(f, v).
            \<lparr> feature = f,
              effect = (if 0 < v then ''increase'' else if v < 0 then ''decrease'' else ''neutral''),
              contribution = v \<rparr>)
           (take 3 ranked))"

text \<open>The loop of \<^verbatim>\<open>_build_explanation\<close> over \<^verbatim>\<open>enumerate(FEATURES)\<close>.\<close>

fun contributions_of ::
  "(string \<times> real) list \<Rightarrow> real list \<Rightarrow> (nat \<times> string) list \<Rightarrow> error + (string \<times> real) list" where
  "contributions_of coefs standardized [] = Inr []"
| "contributions_of coefs standardized ((idx, f) # rest) =
     (case index standardized idx of
        Inl e \<Rightarrow> Inl e
      | Inr z \<Rightarrow>
          (case contributions_of coefs standardized rest of
             Inl e \<Rightarrow> Inl e
           | Inr cs \<Rightarrow> Inr ((f, z * dict_get coefs f 0) # cs)))"

text \<open>\<^verbatim>\<open>Predictor._build_explanation\<close>. \<^verbatim>\<open>permutation_importance or {...}\<close> takes the
  second operand when the first is \<^verbatim>\<open>None\<close> or an empty dict.\<close>

definition build_explanation :: "metadata_doc \<Rightarrow> real list \<Rightarrow> error + explanation" where
  "build_explanation md raw_vector =
     (let coefs = get_coefficients md in
      case standardize md raw_vector of
        Inl e \<Rightarrow> Inl e
      | Inr standardized \<Rightarrow>
          (case contributions_of coefs standardized (enumerate 0 FEATURES) of
             Inl e \<Rightarrow> Inl e
           | Inr contributions \<Rightarrow>
               Inr \<lparr> top_reasons = derive_top_reasons contributions,
                     feature_importances =
                       (case md_get permutation_importance md of
                          Some (p # ps) \<Rightarrow> p # ps
                        | _ \<Rightarrow> map (\<lambda>f. (f, \<bar>dict_get contributions f 0\<bar>)) FEATURES),
                     coefficients = coefs \<rparr>))"

section \<open>Feedback generation\<close>

definition sigmoid :: "real \<Rightarrow> real" where
  "sigmoid z = 1 / (1 + exp (- z))"

definition logit :: "real \<Rightarrow> real" where
  "logit p = (let eps = 1 / 10 ^ 6; q = min (max p eps) (1 - eps) in ln (q / (1 - q)))"

definition feature_tip :: "string \<Rightarrow> string" where
  "feature_tip f =
     dict_get
       [(''marks'', ''Practice previous year papers, focus on weak chapters, get 1-on-1 tutoring.''),
        (''attendance'',
         ''Attend more lectures and labs, attend office hours, increase attendance by up to +10%.''),
        (''internal_score'',
         ''Submit all assignments, improve assignment quality, discuss rubrics with teacher, up to +10 points.'')]
       f ''Focus improvement efforts on this area.''"

definition max_increase :: "(string \<times> real) list" where
  "max_increase = [(''attendance'', 10), (''marks'', 15), (''internal_score'', 10)]"

definition priority_rank :: "string \<Rightarrow> nat" where
  "priority_rank p = dict_get [(''high'', 0), (''medium'', 1), (''low'', 2)] p 3"

text \<open>\<^verbatim>\<open>int(round(x))\<close>: Python rounds a float half to even.\<close>

definition py_round :: "real \<Rightarrow> int" where
  "py_round x =
     (let f = \<lfloor>x\<rfloor>; d = x - of_int f
      in if d < 1 / 2 then f else if 1 / 2 < d then f + 1 else if even f then f else f + 1)"

text \<open>
  The string \<^verbatim>\<open>Increase {feature} by {by} {unit} ({from} -> {to})\<close>, kept as its parts.
\<close>

record suggested_change =
  change_feature :: string
  change_by :: int
  change_unit :: string
  change_from :: int
  change_to :: int

record suggestion =
  feature :: string
  current_value :: real
  suggested_change :: suggested_change
  estimated_probability_gain :: real
  new_probability_estimate :: real
  priority :: string
  explanation :: string

text \<open>\<^verbatim>\<open>min(cap, 100.0 - current_value)\<close>\<close>

definition delta_value :: "real \<Rightarrow> real \<Rightarrow> real" where
  "delta_value cap current = min cap (100 - current)"

text \<open>\<^verbatim>\<open>float(scales[idx]) if scales is not None and len(scales) > idx else 1.0\<close>, then
  \<^verbatim>\<open>scale if scale != 0 else 1.0\<close>: the divisor of \<^verbatim>\<open>delta_value\<close>.\<close>

definition feedback_divisor :: "metadata_doc \<Rightarrow> nat \<Rightarrow> real" where
  "feedback_divisor md idx =
     (let scales = (case scaler_scale (get_scaler md) of None \<Rightarrow> [1, 1, 1] | Some s \<Rightarrow> s);
          scale = (if idx < length scales then scales ! idx else 1)
      in if scale \<noteq> 0 then scale else 1)"

text \<open>Python's float division, which raises on a zero divisor.\<close>

definition py_div :: "real \<Rightarrow> real \<Rightarrow> error + real" where
  "py_div x y = (if y = 0 then Inl ZeroDivisionError else Inr (x / y))"

text \<open>The \<^verbatim>\<open>if gain < 0.005 ... elif gain < 0.10 ... else\<close> chain.\<close>

definition priority_of :: "real \<Rightarrow> string" where
  "priority_of gain =
     (if gain < 5 / 1000 then ''low'' else if gain < 10 / 100 then ''medium'' else ''high'')"

text \<open>One pass of the loop of \<^verbatim>\<open>_compute_feedback\<close>: \<open>Inr None\<close> is \<^verbatim>\<open>continue\<close>.\<close>

definition feedback_for ::
  "metadata_doc \<Rightarrow> real list \<Rightarrow> real \<Rightarrow> nat \<Rightarrow> string \<Rightarrow> error + suggestion option" where
  "feedback_for md raw_vector base_prob idx f =
     (case index raw_vector idx of
        Inl e \<Rightarrow> Inl e
      | Inr current \<Rightarrow>
          (case map_of max_increase f of
             None \<Rightarrow> Inl (KeyError [f])
           | Some cap \<Rightarrow>
               let delta = delta_value cap current in
               if delta \<le> 0 then Inr None
               else
                 (case py_div delta (feedback_divisor md idx) of
                    Inl e \<Rightarrow> Inl e
                  | Inr delta_scaled \<Rightarrow>
                      let coef = dict_get (get_coefficients md) f 0;
                          delta_log_odds = coef * delta_scaled;
                          new_prob = sigmoid (logit base_prob + delta_log_odds);
                          gain = max 0 (new_prob - base_prob)
                      in Inr (Some
                           \<lparr> feature = f,
                             current_value = current,
                             suggested_change =
                               \<lparr> change_feature = f,
                                 change_by = py_round delta,
                                 change_unit = (if f = ''attendance'' then ''%'' else ''points''),
                                 change_from = py_round current,
                                 change_to = py_round (current + delta) \<rparr>,
                             estimated_probability_gain = gain,
                             new_probability_estimate = new_prob,
                             priority = priority_of gain,
                             explanation = feature_tip f \<rparr>))))"

fun feedback_loop ::
  "metadata_doc \<Rightarrow> real list \<Rightarrow> real \<Rightarrow> (nat \<times> string) list \<Rightarrow> error + suggestion list" where
  "feedback_loop md raw_vector base_prob [] = Inr []"
| "feedback_loop md raw_vector base_prob ((idx, f) # rest) =
     (case feedback_for md raw_vector base_prob idx f of
        Inl e \<Rightarrow> Inl e
      | Inr s \<Rightarrow>
          (case feedback_loop md raw_vector base_prob rest of
             Inl e \<Rightarrow> Inl e
           | Inr ss \<Rightarrow> Inr ((case s of None \<Rightarrow> [] | Some x \<Rightarrow> [x]) @ ss)))"

text \<open>The key of the final sort: \<^verbatim>\<open>(priority_rank.get(s["priority"], 3), -gain)\<close>, ordered
  as Python orders tuples.\<close>

definition sort_rank :: "suggestion \<Rightarrow> nat \<times> real" where
  "sort_rank s = (priority_rank (priority s), - estimated_probability_gain s)"

text \<open>\<^verbatim>\<open>Predictor._compute_feedback\<close>; \<^verbatim>\<open>list.sort\<close> is stable, as \<open>sort_key\<close> is.\<close>

definition compute_feedback :: "metadata_doc \<Rightarrow> real list \<Rightarrow> real \<Rightarrow> error + suggestion list" where
  "compute_feedback md raw_vector base_prob =
     (case feedback_loop md raw_vector base_prob (enumerate 0 FEATURES) of
        Inl e \<Rightarrow> Inl e
      | Inr suggestions \<Rightarrow> Inr (sort_key sort_rank suggestions))"

text \<open>\<^verbatim>\<open>Predictor._build_feedback_paragraph\<close>: the paragraph as the list of the parts it
  joins, each part with the values its text quotes.\<close>

datatype paragraph_part =
    Opening bool real
  | AttendanceAdvice
  | MarksAdvice
  | InternalScoreAdvice
  | NextStep suggested_change real real
  | UnusualInputs
  | Closing

definition build_feedback_paragraph ::
  "features \<Rightarrow> real \<Rightarrow> bool \<Rightarrow> suggestion list \<Rightarrow> string list \<Rightarrow> paragraph_part list" where
  "build_feedback_paragraph fs proba passed suggestions suspicion_notes =
     [Opening passed proba] @
     (if attendance fs < 60 then [AttendanceAdvice] else []) @
     (if marks fs < 60 then [MarksAdvice] else []) @
     (if internal_score fs < 60 then [InternalScoreAdvice] else []) @
     (case suggestions of
        [] \<Rightarrow> []
      | first # _ \<Rightarrow>
          [NextStep (suggested_change first) (estimated_probability_gain first)
             (new_probability_estimate first)]) @
     (if suspicion_notes \<noteq> [] then [UnusualInputs] else []) @
     [Closing]"

section \<open>The predictor\<close>

text \<open>
  The fitted model is the calibrated classifier of scikit-learn, which is not code of this
  repository: it is a parameter, the function from a row of features to the probability of
  the positive class (\<^verbatim>\<open>predict_proba(X)[:, 1]\<close>, computed row by row).
\<close>

record predictor =
  model :: "real list \<Rightarrow> real"
  metadata :: metadata_doc
  threshold :: real

record response =
  predicted_result :: nat
  probability :: real
  threshold_used :: real
  suspicious_input :: bool
  explanation :: explanation
  feedback :: "suggestion list"
  feedback_paragraph :: "paragraph_part list"
  suspicious_reasons :: "string list option"
  response_notes :: "string option"
  final_exam_score :: "real option"

text \<open>The validation at the head of \<^verbatim>\<open>predict\<close>, in the order of the code.\<close>

definition validate_features :: "pyval \<Rightarrow> pyval \<Rightarrow> pyval \<Rightarrow> error + features" where
  "validate_features a m i =
     (case validate_range ''attendance'' a of
        Inl e \<Rightarrow> Inl e
      | Inr a' \<Rightarrow>
          (case validate_range ''marks'' m of
             Inl e \<Rightarrow> Inl e
           | Inr m' \<Rightarrow>
               (case validate_range ''internal_score'' i of
                  Inl e \<Rightarrow> Inl e
                | Inr i' \<Rightarrow> Inr \<lparr> attendance = a', marks = m', internal_score = i' \<rparr>)))"

text \<open>\<^verbatim>\<open>if final_exam_score is not None: self._validate_range(...)\<close>\<close>

definition validate_final_exam :: "pyval \<Rightarrow> error + real option" where
  "validate_final_exam v =
     (if v = PyNone then Inr None
      else case validate_range ''final_exam_score'' v of Inl e \<Rightarrow> Inl e | Inr x \<Rightarrow> Inr (Some x))"

text \<open>\<^verbatim>\<open>int(proba >= self.threshold)\<close>\<close>

definition label :: "real \<Rightarrow> real \<Rightarrow> nat" where
  "label proba t = (if t \<le> proba then 1 else 0)"

text \<open>\<^verbatim>\<open>Predictor.predict\<close>\<close>

definition predict :: "predictor \<Rightarrow> pyval \<Rightarrow> pyval \<Rightarrow> pyval \<Rightarrow> pyval \<Rightarrow> error + response" where
  "predict p a m i final_exam =
     (case validate_features a m i of
        Inl e \<Rightarrow> Inl e
      | Inr fs \<Rightarrow>
          (case validate_final_exam final_exam of
             Inl e \<Rightarrow> Inl e
           | Inr final \<Rightarrow>
               let suspicion_notes = collect_suspicion_markers fs final;
                   raw_vector = feature_vector fs;
                   proba = model p raw_vector;
                   prediction = label proba (threshold p)
               in (case build_explanation (metadata p) raw_vector of
                    Inl e \<Rightarrow> Inl e
                  | Inr expl \<Rightarrow>
                      (case compute_feedback (metadata p) raw_vector proba of
                         Inl e \<Rightarrow> Inl e
                       | Inr fb \<Rightarrow>
                           Inr \<lparr> predicted_result = prediction,
                                 probability = proba,
                                 threshold_used = threshold p,
                                 suspicious_input = (suspicion_notes \<noteq> []),
                                 explanation = expl,
                                 feedback = fb,
                                 feedback_paragraph =
                                   build_feedback_paragraph fs proba (prediction \<noteq> 0) fb
                                     suspicion_notes,
                                 suspicious_reasons =
                                   (if suspicion_notes \<noteq> [] then Some suspicion_notes else None),
                                 response_notes =
                                   (if suspicion_notes \<noteq> []
                                    then Some ''Inputs inconsistent: please verify values (e.g., zero marks with high internal score).''
                                    else None),
                                 final_exam_score = final \<rparr>))))"

subsection \<open>Batch prediction\<close>

record processed_input =
  meta :: item
  input_features :: features
  input_notes :: "string list"

record batch_result =
  student_id :: pyval
  course_id :: pyval
  predicted_result :: nat
  probability :: real
  threshold_used :: real
  suspicious_input :: bool
  explanation :: explanation
  suspicious_reasons :: "string list option"

text \<open>The \<^verbatim>\<open>try\<close> block of \<^verbatim>\<open>predict_batch\<close>: an \<^verbatim>\<open>InvalidInputError\<close> raised for one of
  the three features is raised again with the item in its message.\<close>

definition batch_item_features :: "item \<Rightarrow> error + features" where
  "batch_item_features item =
     (case validate_features (item ''attendance'') (item ''marks'') (item ''internal_score'') of
        Inl (InvalidInputError exc) \<Rightarrow> Inl (InvalidInputError (InvalidBatchItem item exc))
      | Inl e \<Rightarrow> Inl e
      | Inr fs \<Rightarrow> Inr fs)"

text \<open>The first loop of \<^verbatim>\<open>predict_batch\<close>, which validates every item.\<close>

fun process_items :: "item list \<Rightarrow> error + processed_input list" where
  "process_items [] = Inr []"
| "process_items (item # rest) =
     (case batch_item_features item of
        Inl e \<Rightarrow> Inl e
      | Inr fs \<Rightarrow>
          (case validate_final_exam (item ''final_exam_score'') of
             Inl e \<Rightarrow> Inl e
           | Inr final \<Rightarrow>
               (case process_items rest of
                  Inl e \<Rightarrow> Inl e
                | Inr ps \<Rightarrow>
                    Inr (\<lparr> meta = item, input_features = fs,
                           input_notes = collect_suspicion_markers fs final \<rparr> # ps))))"

text \<open>The second loop, over the processed inputs and their probabilities.\<close>

fun batch_results :: "predictor \<Rightarrow> (real \<times> processed_input) list \<Rightarrow> error + batch_result list" where
  "batch_results p [] = Inr []"
| "batch_results p ((proba, processed) # rest) =
     (case build_explanation (metadata p) (feature_vector (input_features processed)) of
        Inl e \<Rightarrow> Inl e
      | Inr expl \<Rightarrow>
          (case batch_results p rest of
             Inl e \<Rightarrow> Inl e
           | Inr rs \<Rightarrow>
               Inr (\<lparr> student_id = meta processed ''student_id'',
                      course_id = meta processed ''course_id'',
                      predicted_result = label proba (threshold p),
                      probability = proba,
                      threshold_used = threshold p,
                      suspicious_input = (input_notes processed \<noteq> []),
                      explanation = expl,
                      suspicious_reasons =
                        (if input_notes processed \<noteq> [] then Some (input_notes processed)
                         else None) \<rparr> # rs)))"

text \<open>
  \<^verbatim>\<open>Predictor.predict_batch\<close>. The model is called once, after the first loop, on the
  matrix of all rows; scikit-learn rejects a matrix without rows with a \<^verbatim>\<open>ValueError\<close>.
\<close>

definition predict_batch :: "predictor \<Rightarrow> item list \<Rightarrow> error + batch_result list" where
  "predict_batch p data =
     (case process_items data of
        Inl e \<Rightarrow> Inl e
      | Inr processed_inputs \<Rightarrow>
          if processed_inputs = [] then Inl (ValueError EstimatorFailure)
          else
            let features_matrix = map (\<lambda>q. feature_vector (input_features q)) processed_inputs;
                predictions = map (model p) features_matrix
            in batch_results p (zip predictions processed_inputs))"

subsection \<open>Loading\<close>

text \<open>The files the code reads and writes: a model artifact, a JSON document parsed to a
  metadata document, or anything else.\<close>

datatype stored = ModelFile "real list \<Rightarrow> real" | JsonFile metadata_doc | OtherFile

type_synonym files = "string \<Rightarrow> stored option"

text \<open>\<^verbatim>\<open>Predictor._load_model_and_metadata\<close>, with the constructor's default threshold
  replaced by the resolved one.\<close>

definition load_model_and_metadata ::
  "(string \<Rightarrow> pyfloat option) \<Rightarrow> string option \<Rightarrow> files \<Rightarrow> string \<Rightarrow> string \<Rightarrow> error + predictor" where
  "load_model_and_metadata float_of_str env_threshold disk model_path metadata_path =
     (case disk model_path of
        None \<Rightarrow> Inl (FileNotFoundError model_path)
      | Some (ModelFile m) \<Rightarrow>
          (case (case disk metadata_path of
                   None \<Rightarrow> Inr (Dict empty_metadata)
                 | Some (JsonFile doc) \<Rightarrow> Inr doc
                 | Some _ \<Rightarrow> Inl JSONDecodeError) of
             Inl e \<Rightarrow> Inl e
           | Inr md \<Rightarrow>
               (case resolve_threshold float_of_str env_threshold md of
                  Inl e \<Rightarrow> Inl e
                | Inr t \<Rightarrow> Inr \<lparr> model = m, metadata = md, threshold = t \<rparr>))
      | Some _ \<Rightarrow> Inl UnpicklingError)"

text \<open>A predictor for the examples below: a model that answers one half for every row, no
  metadata file, the default threshold.\<close>

definition reference_predictor :: predictor where
  "reference_predictor =
     \<lparr> model = (\<lambda>v. 1 / 2), metadata = Dict empty_metadata, threshold = 6 / 10 \<rparr>"

text \<open>What is to be shown of one suggestion, for the probability \<open>base\<close> of the prediction
  and the current value of the suggestion's feature.\<close>

definition suggestion_ok :: "real \<Rightarrow> real \<Rightarrow> suggestion \<Rightarrow> bool" where
  "suggestion_ok base current s =
     (current_value s = current \<and>
      (\<exists>cap. map_of max_increase (suggestion.feature s) = Some cap \<and>
         0 < delta_value cap current \<and>
         current + delta_value cap current \<le> 100 \<and>
         change_by (suggested_change s) = py_round (delta_value cap current) \<and>
         change_to (suggested_change s) = py_round (current + delta_value cap current) \<and>
         change_to (suggested_change s) \<le> 100) \<and>
      0 \<le> estimated_probability_gain s \<and> estimated_probability_gain s \<le> 1 - base \<and>
      (priority s = ''high'' \<or> priority s = ''medium'' \<or> priority s = ''low''))"

text \<open>A threshold entry on which \<^verbatim>\<open>float()\<close> returns: anything but an integer beyond
  the double range.\<close>

definition representable :: "json option \<Rightarrow> bool" where
  "representable v = (case v of Some (JInt n) \<Rightarrow> \<bar>n\<bar> < 2 ^ 1024 - 2 ^ 970 | _ \<Rightarrow> True)"

section \<open>Training\<close>

subsection \<open>Data frames\<close>

text \<open>
  A row of a pandas data frame, read by column name; \<open>None\<close> is a missing cell
  (\<^verbatim>\<open>None\<close> or NaN). An enrollment is read through its attributes in the same way.
\<close>

type_synonym row = "string \<Rightarrow> real option"

record dataframe =
  columns :: "string list"
  rows :: "row list"

text \<open>
  \<^verbatim>\<open>pd.DataFrame(records)\<close> for a list of dicts with the given keys: the columns are the
  keys of the dicts, so an empty list gives a frame without columns.
\<close>

definition pd_DataFrame :: "string list \<Rightarrow> row list \<Rightarrow> dataframe" where
  "pd_DataFrame keys records =
     \<lparr> columns = (if records = [] then [] else keys),
       rows = map (\<lambda>r k. if k \<in> set keys then r k else None) records \<rparr>"

text \<open>\<^verbatim>\<open>df.dropna(subset=[c])\<close>, which raises \<^verbatim>\<open>KeyError\<close> when \<open>c\<close> is not a column.\<close>

definition dropna :: "string \<Rightarrow> dataframe \<Rightarrow> error + dataframe" where
  "dropna c df =
     (if c \<in> set (columns df) then Inr (df \<lparr> rows := filter (\<lambda>r. r c \<noteq> None) (rows df) \<rparr>)
      else Inl (KeyError [c]))"

text \<open>\<^verbatim>\<open>_to_dataframe_from_enrollments\<close>\<close>

definition to_dataframe_from_enrollments :: "row list \<Rightarrow> error + dataframe" where
  "to_dataframe_from_enrollments enrollments =
     dropna ''result''
       (pd_DataFrame [''attendance'', ''marks'', ''internal_score'', ''result''] enrollments)"

text \<open>\<^verbatim>\<open>_validate_columns\<close>\<close>

definition validate_columns :: "dataframe \<Rightarrow> error + unit" where
  "validate_columns df =
     (let missing_cols = filter (\<lambda>col. col \<notin> set (columns df)) (FEATURES @ [''result''])
      in if missing_cols \<noteq> [] then Inl (ValueError (MissingColumns missing_cols)) else Inr ())"

text \<open>The median of pandas, which skips missing cells and is NaN when none is left.\<close>

definition median :: "real list \<Rightarrow> pyfloat" where
  "median xs =
     (let s = sort xs; n = length s
      in if n = 0 then NaN
         else if odd n then Finite (s ! (n div 2))
         else Finite ((s ! (n div 2 - 1) + s ! (n div 2)) / 2))"

definition column_values :: "dataframe \<Rightarrow> string \<Rightarrow> real option list" where
  "column_values df col = map (\<lambda>r. r col) (rows df)"

definition column_median :: "dataframe \<Rightarrow> string \<Rightarrow> pyfloat" where
  "column_median df col = median (List.map_filter (\<lambda>v. v) (column_values df col))"

text \<open>
  \<^verbatim>\<open>_prepare_features\<close>: the matrix of the three features, row by row, with each missing
  cell filled by the median of its column (a NaN median fills nothing), and the imputation
  statistics of each column.
\<close>

definition prepare_features ::
  "dataframe \<Rightarrow> real option list list \<times> (string \<times> imputation_stat) list" where
  "prepare_features df =
     (map (\<lambda>r. map (\<lambda>col.
             case r col of
               Some x \<Rightarrow> Some x
             | None \<Rightarrow> (case column_median df col of Finite x \<Rightarrow> Some x | _ \<Rightarrow> None))
           FEATURES)
        (rows df),
      map (\<lambda>col.
             let missing = length (filter (\<lambda>v. v = None) (column_values df col))
             in (col,
                 if 0 < missing
                 then \<lparr> imputed_count = missing, median_used = Some (column_median df col) \<rparr>
                 else \<lparr> imputed_count = 0, median_used = None \<rparr>))
        FEATURES)"

text \<open>\<^verbatim>\<open>data["result"].astype(int)\<close>: truncation towards zero; a missing cell cannot be
  converted.\<close>

definition astype_int :: "real option list \<Rightarrow> error + int list" where
  "astype_int vs =
     (if None \<in> set vs then Inl (ValueError CannotConvertNaN)
      else Inr (List.map_filter
                  (map_option (\<lambda>x. if 0 \<le> x then \<lfloor>x\<rfloor> else \<lceil>x\<rceil>)) vs))"

subsection \<open>The estimators of scikit-learn\<close>

text \<open>
  Fitting, cross-validation, calibration, the ROC curve and permutation importance are
  scikit-learn's, not code of this repository: they are parameters, each a function that
  returns its result or raises. What \<^verbatim>\<open>train_model\<close> does with their results is modelled
  in full. The thresholds of \<^verbatim>\<open>roc_curve\<close> are floats as they come: recent versions of
  scikit-learn put an infinite one first.
\<close>

record pipeline =
  pipe_mean :: "real list"
  pipe_scale :: "real list"
  pipe_coef :: "real list"
  pipe_intercept :: real

record cv_results =
  test_accuracy :: "real list"
  test_precision :: "real list"
  test_recall :: "real list"
  test_f1 :: "real list"
  estimator :: "pipeline list"

record sklearn =
  cross_validate :: "real list list \<Rightarrow> int list \<Rightarrow> error + cv_results"
  pipeline_fit :: "real list list \<Rightarrow> int list \<Rightarrow> error + pipeline"
  calibrated_fit :: "real list list \<Rightarrow> int list \<Rightarrow> error + (real list \<Rightarrow> real)"
  roc_auc_score :: "int list \<Rightarrow> real list \<Rightarrow> error + real"
  roc_curve :: "int list \<Rightarrow> real list \<Rightarrow> error + pyfloat list"
  importances_mean :: "pipeline \<Rightarrow> real list list \<Rightarrow> int list \<Rightarrow> error + real list"

text \<open>The estimators reject a matrix with a missing cell.\<close>

definition check_array :: "real option list list \<Rightarrow> error + real list list" where
  "check_array X =
     (if \<exists>r \<in> set X. None \<in> set r then Inl (ValueError EstimatorFailure)
      else Inr (map (List.map_filter (\<lambda>v. v)) X))"

text \<open>\<^verbatim>\<open>np.mean\<close> of a vector, which is NaN for an empty one (marked as for division).\<close>

definition np_mean :: "real list \<Rightarrow> error + real" where
  "np_mean xs = (if xs = [] then Inl FloatingPointError else Inr (sum_list xs / real (length xs)))"

text \<open>\<^verbatim>\<open>np.mean(vectors, axis=0)\<close>: the mean of each position over the vectors.\<close>

definition np_mean_axis0 :: "real list list \<Rightarrow> error + real list" where
  "np_mean_axis0 vs =
     (if vs = [] then Inl FloatingPointError
      else if \<exists>v \<in> set vs. length v \<noteq> length (hd vs) then Inl (ValueError EstimatorFailure)
      else Inr (map (\<lambda>j. sum_list (map (\<lambda>v. v ! j) vs) / real (length vs))
                  [0..<length (hd vs)]))"

text \<open>\<^verbatim>\<open>_compute_metrics\<close>: the metrics, the coefficients and the intercept are means
  over the estimators of the five folds.\<close>

definition compute_metrics ::
  "sklearn \<Rightarrow> real list list \<Rightarrow> int list \<Rightarrow> error + metrics \<times> real list \<times> real" where
  "compute_metrics sk X y =
     (case cross_validate sk X y of
        Inl e \<Rightarrow> Inl e
      | Inr cv \<Rightarrow>
          (case (np_mean (test_accuracy cv), np_mean (test_precision cv),
                 np_mean (test_recall cv), np_mean (test_f1 cv)) of
             (Inr a, Inr p, Inr r, Inr f) \<Rightarrow>
               (case np_mean_axis0 (map pipe_coef (estimator cv)) of
                  Inl e \<Rightarrow> Inl e
                | Inr coefs \<Rightarrow>
                    (case np_mean (map pipe_intercept (estimator cv)) of
                       Inl e \<Rightarrow> Inl e
                     | Inr icpt \<Rightarrow>
                         Inr (\<lparr> accuracy = a, precision = p, recall = r, f1_score = f \<rparr>,
                              coefs, icpt)))
           | _ \<Rightarrow> Inl FloatingPointError))"

text \<open>\<^verbatim>\<open>_compute_permutation_importance\<close>: any failure gives zeros.\<close>

definition compute_permutation_importance ::
  "sklearn \<Rightarrow> pipeline \<Rightarrow> real list list \<Rightarrow> int list \<Rightarrow> (string \<times> real) list" where
  "compute_permutation_importance sk base X y =
     (case importances_mean sk base X y of
        Inl e \<Rightarrow> map (\<lambda>f. (f, 0)) FEATURES
      | Inr importances \<Rightarrow>
          let total = sum_list (map abs importances);
              normalized = (if total \<noteq> 0 then map (\<lambda>v. v / total) importances else importances)
          in zip FEATURES normalized)"

subsection \<open>The recommended threshold\<close>

text \<open>\<^verbatim>\<open>f1_score(y, preds, zero_division=0)\<close> for labels 0 and 1, the positive label 1.\<close>

definition sk_f1_score :: "int list \<Rightarrow> bool list \<Rightarrow> real" where
  "sk_f1_score y preds =
     (let tp = length (filter (\<lambda>(t, p). t = 1 \<and> p) (zip y preds));
          fp = length (filter (\<lambda>(t, p). t \<noteq> 1 \<and> p) (zip y preds));
          fn = length (filter (\<lambda>(t, p). t = 1 \<and> \<not> p) (zip y preds))
      in if 2 * tp + fp + fn = 0 then 0 else real (2 * tp) / real (2 * tp + fp + fn))"

text \<open>\<^verbatim>\<open>y_scores >= threshold\<close> for one score: no score reaches an infinite threshold, and
  a comparison with NaN is false.\<close>

definition score_ge :: "real \<Rightarrow> pyfloat \<Rightarrow> bool" where
  "score_ge s t = (case t of Finite x \<Rightarrow> x \<le> s | PosInf \<Rightarrow> False | NegInf \<Rightarrow> True | NaN \<Rightarrow> False)"

text \<open>\<^verbatim>\<open>f1_score(y, (y_scores >= threshold).astype(int), zero_division=0)\<close>\<close>

definition f1_at :: "int list \<Rightarrow> real list \<Rightarrow> pyfloat \<Rightarrow> real" where
  "f1_at y y_scores t = sk_f1_score y (map (\<lambda>s. score_ge s t) y_scores)"

text \<open>The loop over the thresholds, on the pair \<^verbatim>\<open>(best_threshold, best_f1)\<close>.\<close>

fun threshold_scan ::
  "(pyfloat \<Rightarrow> real) \<Rightarrow> pyfloat list \<Rightarrow> pyfloat \<times> real \<Rightarrow> pyfloat \<times> real" where
  "threshold_scan f1 [] best = best"
| "threshold_scan f1 (t # ts) (best_threshold, best_f1) =
     (if best_f1 < f1 t then threshold_scan f1 ts (t, f1 t)
      else threshold_scan f1 ts (best_threshold, best_f1))"

text \<open>Lines 196 to 205 of \<^verbatim>\<open>train_model\<close>.\<close>

text \<open>\<^verbatim>\<open>max(best_threshold, 0.6)\<close>: Python's \<^verbatim>\<open>max\<close> keeps its first argument unless the
  second is greater.\<close>

definition py_max :: "pyfloat \<Rightarrow> real \<Rightarrow> pyfloat" where
  "py_max a b =
     (case a of
        Finite x \<Rightarrow> if x < b then Finite b else Finite x
      | PosInf \<Rightarrow> PosInf
      | NegInf \<Rightarrow> Finite b
      | NaN \<Rightarrow> NaN)"

definition recommend_threshold :: "int list \<Rightarrow> real list \<Rightarrow> pyfloat list \<Rightarrow> pyfloat" where
  "recommend_threshold y y_scores thresholds =
     py_max (fst (threshold_scan (f1_at y y_scores) thresholds (Finite (6 / 10), - 1))) (6 / 10)"


subsection \<open>Writing the metadata\<close>

text \<open>
  \<^verbatim>\<open>_save_metadata\<close>: the new document takes over the \<^verbatim>\<open>user_threshold\<close> entry of a
  readable JSON object at the same path when it has none of its own; any failure to read
  the old file is ignored. The function changes the dict in place, so the caller sees the
  entry too: the result is the file system and the document as written.
\<close>

definition save_metadata :: "files \<Rightarrow> string \<Rightarrow> metadata \<Rightarrow> files \<times> metadata" where
  "save_metadata disk metadata_path md =
     (let written =
            (case disk metadata_path of
               Some (JsonFile (Dict existing_metadata)) \<Rightarrow>
                 if user_threshold existing_metadata \<noteq> None \<and> user_threshold md = None
                 then md \<lparr> user_threshold := user_threshold existing_metadata \<rparr>
                 else md
             | _ \<Rightarrow> md)
      in (disk (metadata_path := Some (JsonFile (Dict written))), written))"

subsection \<open>Training\<close>

text \<open>\<^verbatim>\<open>y.value_counts().to_dict()\<close>\<close>

definition value_counts :: "int list \<Rightarrow> (int \<times> nat) list" where
  "value_counts y = map (\<lambda>c. (c, count_list y c)) (remdups y)"

text \<open>The metadata dict of \<^verbatim>\<open>train_model\<close>: it has no \<^verbatim>\<open>user_threshold\<close> entry.\<close>

definition training_metadata ::
  "string \<Rightarrow> int list \<Rightarrow> (string \<times> imputation_stat) list \<Rightarrow> metrics \<Rightarrow> real list \<Rightarrow> real
     \<Rightarrow> (string \<times> real) list \<Rightarrow> real \<Rightarrow> pyfloat \<Rightarrow> pipeline \<Rightarrow> metadata" where
  "training_metadata now y imputation_stats cv_metrics coefs icpt importances auc best_threshold
       base_pipeline =
     \<lparr> generated_at = Some (now @ ''Z''),
       feature_names = Some FEATURES,
       class_counts = Some (value_counts y),
       class_distribution =
         Some (map (\<lambda>(cls, n). (cls, real n / real (length y))) (value_counts y)),
       imputation = Some imputation_stats,
       coefficients = Some (zip FEATURES coefs),
       intercept = Some icpt,
       permutation_importance = Some importances,
       metrics_cv = Some cv_metrics,
       roc_auc = Some auc,
       recommended_threshold = Some (JFloat best_threshold),
       scaler = Some \<lparr> scaler_mean = Some (pipe_mean base_pipeline),
                       scaler_scale = Some (pipe_scale base_pipeline) \<rparr>,
       user_threshold = None,
       user_threshold_set_at = None \<rparr>"

text \<open>
  The part of \<^verbatim>\<open>train_model\<close> that fits and scores, from \<^verbatim>\<open>_compute_metrics\<close> to the
  metadata dict: the calibrated model, the metrics and the metadata.
\<close>

definition fit_and_describe ::
  "sklearn \<Rightarrow> string \<Rightarrow> real list list \<Rightarrow> int list \<Rightarrow> (string \<times> imputation_stat) list
     \<Rightarrow> error + (real list \<Rightarrow> real) \<times> metrics \<times> metadata" where
  "fit_and_describe sk now X y imputation_stats =
     (case compute_metrics sk X y of
        Inl e \<Rightarrow> Inl e
      | Inr (cv_metrics, coefs, icpt) \<Rightarrow>
          (case pipeline_fit sk X y of
             Inl e \<Rightarrow> Inl e
           | Inr base_pipeline \<Rightarrow>
               (case calibrated_fit sk X y of
                  Inl e \<Rightarrow> Inl e
                | Inr calibrated_model \<Rightarrow>
                    let y_scores = map calibrated_model X in
                    (case roc_auc_score sk y y_scores of
                       Inl e \<Rightarrow> Inl e
                     | Inr auc \<Rightarrow>
                         (case roc_curve sk y y_scores of
                            Inl e \<Rightarrow> Inl e
                          | Inr thresholds \<Rightarrow>
                              let best_threshold = recommend_threshold y y_scores thresholds;
                                  importances =
                                    compute_permutation_importance sk base_pipeline X y
                              in Inr (calibrated_model, cv_metrics,
                                      training_metadata now y imputation_stats cv_metrics coefs
                                        icpt importances auc best_threshold base_pipeline))))))"

text \<open>
  \<^verbatim>\<open>train_model\<close>: the outcome and the file system it leaves. Nothing is written before
  the two writes at the end.
\<close>

definition train_model ::
  "sklearn \<Rightarrow> string \<Rightarrow> files \<Rightarrow> dataframe \<Rightarrow> string \<Rightarrow> string
     \<Rightarrow> (error + (real list \<Rightarrow> real) \<times> metrics \<times> metadata) \<times> files" where
  "train_model sk now disk data model_path metadata_path =
     (case validate_columns data of
        Inl e \<Rightarrow> (Inl e, disk)
      | Inr _ \<Rightarrow>
          let (X, imputation_stats) = prepare_features data in
          (case astype_int (column_values data ''result'') of
             Inl e \<Rightarrow> (Inl e, disk)
           | Inr y \<Rightarrow>
               if length (remdups y) < 2 then (Inl (ValueError SingleClass), disk)
               else
                 (case check_array X of
                    Inl e \<Rightarrow> (Inl e, disk)
                  | Inr X' \<Rightarrow>
                      (case fit_and_describe sk now X' y imputation_stats of
                         Inl e \<Rightarrow> (Inl e, disk)
                       | Inr (calibrated_model, cv_metrics, md) \<Rightarrow>
                           let disk1 = disk (model_path := Some (ModelFile calibrated_model));
                               (disk2, written) = save_metadata disk1 metadata_path md
                           in (Inr (calibrated_model, cv_metrics, written), disk2)))))"

text \<open>\<^verbatim>\<open>train_from_db\<close>\<close>

definition train_from_db ::
  "sklearn \<Rightarrow> string \<Rightarrow> files \<Rightarrow> row list \<Rightarrow> string \<Rightarrow> string
     \<Rightarrow> (error + (real list \<Rightarrow> real) \<times> metrics \<times> metadata) \<times> files" where
  "train_from_db sk now disk enrollments model_path metadata_path =
     (case to_dataframe_from_enrollments enrollments of
        Inl e \<Rightarrow> (Inl e, disk)
      | Inr df \<Rightarrow>
          if length (rows df) < 10
          then (Inl (ValueError (InsufficientData (length (rows df)))), disk)
          else train_model sk now disk df model_path metadata_path)"










section \<open>Totality of the predictor\<close>

lemma feedback_divisor_nonzero: "feedback_divisor md idx \<noteq> 0"
  by (simp add: feedback_divisor_def Let_def)

lemma feedback_for_total:
  assumes "idx < length raw" and "map_of max_increase f \<noteq> None"
  shows "\<exists>s. feedback_for md raw base idx f = Inr s"
  using assms
  by (auto simp: feedback_for_def index_def py_div_def feedback_divisor_nonzero Let_def)

lemma enumerate_FEATURES:
  "enumerate 0 FEATURES = [(0, ''attendance''), (Suc 0, ''marks''), (2, ''internal_score'')]"
  by (simp add: FEATURES_def)

lemma feedback_loop_total:
  assumes "\<And>idx f. (idx, f) \<in> set xs \<Longrightarrow> idx < length raw \<and> map_of max_increase f \<noteq> None"
  shows "\<exists>ss. feedback_loop md raw base xs = Inr ss"
  using assms
proof (induction xs)
  case Nil
  show ?case by simp
next
  case (Cons x xs)
  obtain idx f where x: "x = (idx, f)" by (cases x)
  from Cons.prems [of idx f] x
  obtain s where s: "feedback_for md raw base idx f = Inr s"
    using feedback_for_total [of idx raw f md base] by auto
  from Cons.IH Cons.prems obtain ss where ss: "feedback_loop md raw base xs = Inr ss"
    by auto
  show ?case by (simp add: x s ss)
qed

lemma compute_feedback_total3:
  "\<exists>ss. compute_feedback md [a, m, i] base = Inr ss"
proof -
  have "\<exists>ss. feedback_loop md [a, m, i] base (enumerate 0 FEATURES) = Inr ss"
    by (rule feedback_loop_total) (auto simp: enumerate_FEATURES max_increase_def)
  then show ?thesis by (auto simp: compute_feedback_def)
qed

lemma standardize_divisor_nonzero: "0 \<notin> set (standardize_divisor md)"
  by (auto simp: standardize_divisor_def Let_def)

lemma np_broadcast_ok:
  assumes "length ys = length xs \<or> length ys = 1"
  shows "\<exists>ps. np_broadcast xs ys = Inr ps \<and> length ps = length xs \<and> snd ` set ps \<subseteq> set ys"
proof (cases "length xs = length ys")
  case True
  then show ?thesis
    by (auto simp: np_broadcast_def dest: set_zip_rightD)
next
  case False
  with assms have one: "length ys = 1" by simp
  then have "hd ys \<in> set ys" by (cases ys) auto
  with False one show ?thesis
    by (auto simp: np_broadcast_def)
qed

lemma np_subtract_ok:
  assumes "length ys = length xs \<or> length ys = 1"
  shows "\<exists>zs. np_subtract xs ys = Inr zs \<and> length zs = length xs"
  using np_broadcast_ok [OF assms] by (auto simp: np_subtract_def)

lemma np_divide_ok:
  assumes "length ys = length xs \<or> length ys = 1" and "0 \<notin> set ys"
  shows "\<exists>zs. np_divide xs ys = Inr zs \<and> length zs = length xs"
proof -
  from np_broadcast_ok [OF assms(1)] obtain ps where
    ps: "np_broadcast xs ys = Inr ps" "length ps = length xs" "snd ` set ps \<subseteq> set ys"
    by blast
  with assms(2) have "0 \<notin> set (map snd ps)" by auto
  with ps show ?thesis by (simp add: np_divide_def)
qed

lemma length_standardize_divisor:
  "length (standardize_divisor md) =
     (case scaler_scale (get_scaler md) of None \<Rightarrow> 3 | Some s \<Rightarrow> length s)"
  by (simp add: standardize_divisor_def split: option.splits)

lemma standardize_total:
  assumes "scaler_fits md"
  shows "\<exists>zs. standardize md [a, m, i] = Inr zs \<and> length zs = 3"
proof -
  let ?mean = "case scaler_mean (get_scaler md) of None \<Rightarrow> [0, 0, 0] | Some m \<Rightarrow> m"
  from assms have "length ?mean = length [a, m, i] \<or> length ?mean = 1"
    by (auto simp: scaler_fits_def split: option.splits)
  from np_subtract_ok [OF this] obtain centred where
    c: "np_subtract [a, m, i] ?mean = Inr centred" "length centred = 3" by auto
  from assms c(2) have "length (standardize_divisor md) = length centred \<or>
      length (standardize_divisor md) = 1"
    by (auto simp: scaler_fits_def length_standardize_divisor split: option.splits)
  from np_divide_ok [OF this standardize_divisor_nonzero] c show ?thesis
    by (auto simp: standardize_def Let_def)
qed

lemma contributions_of_total:
  assumes "\<And>idx f. (idx, f) \<in> set xs \<Longrightarrow> idx < length zs"
  shows "\<exists>cs. contributions_of coefs zs xs = Inr cs"
  using assms
proof (induction xs)
  case Nil
  show ?case by simp
next
  case (Cons x xs)
  obtain idx f where x: "x = (idx, f)" by (cases x)
  from Cons.prems [of idx f] x have "idx < length zs" by simp
  moreover from Cons.IH Cons.prems obtain cs where "contributions_of coefs zs xs = Inr cs"
    by auto
  ultimately show ?case by (simp add: x index_def)
qed

lemma build_explanation_total:
  assumes "scaler_fits md"
  shows "\<exists>e. build_explanation md [a, m, i] = Inr e"
proof -
  from standardize_total [OF assms] obtain zs where
    zs: "standardize md [a, m, i] = Inr zs" "length zs = 3" by blast
  have "\<exists>cs. contributions_of (get_coefficients md) zs (enumerate 0 FEATURES) = Inr cs"
    by (rule contributions_of_total) (auto simp: enumerate_FEATURES zs(2))
  with zs show ?thesis by (auto simp: build_explanation_def Let_def)
qed

lemma predict_total:
  assumes "validate_features a m i = Inr fs" and "validate_final_exam f = Inr final"
    and "scaler_fits (metadata p)"
  shows "\<exists>r. predict p a m i f = Inr r"
proof -
  obtain e where e: "build_explanation (metadata p) (feature_vector fs) = Inr e"
    using build_explanation_total [OF assms(3), of "features.attendance fs" "features.marks fs"
        "features.internal_score fs"]
    by (auto simp: feature_vector_def)
  obtain fb where fb: "compute_feedback (metadata p) (feature_vector fs) (model p (feature_vector fs)) = Inr fb"
    using compute_feedback_total3 [of "metadata p" "features.attendance fs" "features.marks fs"
        "features.internal_score fs"]
    by (auto simp: feature_vector_def)
  show ?thesis by (simp add: predict_def assms(1,2) e fb Let_def)
qed

section \<open>Suspicion detector: claim C9\<close>

lemma predict_Inr:
  assumes "predict p a m i f = Inr r"
  shows "\<exists>fs final expl fb.
           validate_features a m i = Inr fs \<and> validate_final_exam f = Inr final \<and>
           build_explanation (metadata p) (feature_vector fs) = Inr expl \<and>
           compute_feedback (metadata p) (feature_vector fs) (model p (feature_vector fs)) = Inr fb \<and>
           response.probability r = model p (feature_vector fs) \<and>
           response.predicted_result r = label (model p (feature_vector fs)) (threshold p) \<and>
           response.threshold_used r = threshold p \<and>
           response.suspicious_input r = (collect_suspicion_markers fs final \<noteq> []) \<and>
           response.suspicious_reasons r =
             (if collect_suspicion_markers fs final \<noteq> []
              then Some (collect_suspicion_markers fs final) else None) \<and>
           response.feedback r = fb \<and> response.explanation r = expl"
  using assms
  by (auto simp: predict_def Let_def split: sum.splits)

lemma suspicion_rules:
  "(collect_suspicion_markers fs final \<noteq> []) =
     (features.marks fs = 0 \<and> 60 \<le> features.internal_score fs \<or>
      features.attendance fs < 40 \<and> 80 \<le> features.marks fs \<or>
      (\<exists>score. final = Some score \<and> score < 20 \<and> 70 \<le> features.marks fs))"
  by (auto simp: collect_suspicion_markers_def split: option.splits)

text \<open>
  Claim C9. The suspicion detector returns a warning exactly when one of its three rules
  fires (zero marks with an internal score of 60 or more; attendance under 40 with marks of 80
  or more; a final exam score under 20 with marks of 70 or more). The response of
  \<^verbatim>\<open>predict\<close> sets \<^verbatim>\<open>suspicious_input\<close> exactly when there is a warning. The flag
  alters neither the probability nor the label: the probability is the model's answer for
  the validated feature vector and the label is that probability compared with the
  predictor's threshold, whether or not a rule fires; in particular two calls that differ
  only in the final exam score, the one input that feeds the detector alone, return the same
  probability and the same label.
\<close>

theorem suspicion_is_advisory:
  "((collect_suspicion_markers fs final \<noteq> []) =
      (features.marks fs = 0 \<and> 60 \<le> features.internal_score fs \<or>
       features.attendance fs < 40 \<and> 80 \<le> features.marks fs \<or>
       (\<exists>score. final = Some score \<and> score < 20 \<and> 70 \<le> features.marks fs))) \<and>
   (\<forall>r. predict p a m i f = Inr r \<longrightarrow>
      (\<exists>vs vf. validate_features a m i = Inr vs \<and> validate_final_exam f = Inr vf \<and>
         response.suspicious_input r = (collect_suspicion_markers vs vf \<noteq> []) \<and>
         response.suspicious_reasons r =
           (if collect_suspicion_markers vs vf \<noteq> [] then Some (collect_suspicion_markers vs vf)
            else None) \<and>
         response.probability r = model p (feature_vector vs) \<and>
         response.predicted_result r = label (model p (feature_vector vs)) (threshold p))) \<and>
   (\<forall>f1 f2 r1 r2. predict p a m i f1 = Inr r1 \<and> predict p a m i f2 = Inr r2 \<longrightarrow>
      response.probability r1 = response.probability r2 \<and>
      response.predicted_result r1 = response.predicted_result r2)"
proof (intro conjI allI impI)
  show "(collect_suspicion_markers fs final \<noteq> []) =
      (features.marks fs = 0 \<and> 60 \<le> features.internal_score fs \<or>
       features.attendance fs < 40 \<and> 80 \<le> features.marks fs \<or>
       (\<exists>score. final = Some score \<and> score < 20 \<and> 70 \<le> features.marks fs))"
    by (rule suspicion_rules)
next
  fix r assume r: "predict p a m i f = Inr r"
  from predict_Inr [OF r] obtain vs vf where
    "validate_features a m i = Inr vs" "validate_final_exam f = Inr vf"
    "response.suspicious_input r = (collect_suspicion_markers vs vf \<noteq> [])"
    "response.suspicious_reasons r =
       (if collect_suspicion_markers vs vf \<noteq> [] then Some (collect_suspicion_markers vs vf)
        else None)"
    "response.probability r = model p (feature_vector vs)"
    "response.predicted_result r = label (model p (feature_vector vs)) (threshold p)"
    by blast
  then show "\<exists>vs vf. validate_features a m i = Inr vs \<and> validate_final_exam f = Inr vf \<and>
         response.suspicious_input r = (collect_suspicion_markers vs vf \<noteq> []) \<and>
         response.suspicious_reasons r =
           (if collect_suspicion_markers vs vf \<noteq> [] then Some (collect_suspicion_markers vs vf)
            else None) \<and>
         response.probability r = model p (feature_vector vs) \<and>
         response.predicted_result r = label (model p (feature_vector vs)) (threshold p)"
    by blast
next
  fix f1 f2 r1 r2
  assume h: "predict p a m i f1 = Inr r1 \<and> predict p a m i f2 = Inr r2"
  from h predict_Inr [of p a m i f1 r1] predict_Inr [of p a m i f2 r2]
  show "response.probability r1 = response.probability r2" by auto
  from h predict_Inr [of p a m i f1 r1] predict_Inr [of p a m i f2 r2]
  show "response.predicted_result r1 = response.predicted_result r2" by auto
qed


lemma validate_range_float:
  "map_of BOUNDS name = Some (lo, hi) \<Longrightarrow> lo \<le> x \<Longrightarrow> x \<le> hi \<Longrightarrow>
     validate_range name (PyFloat (Finite x)) = Inr x"
  by (simp add: validate_range_def)

lemma validate_features_floats:
  assumes "0 \<le> a" "a \<le> 100" "0 \<le> m" "m \<le> 100" "0 \<le> i" "i \<le> 100"
  shows "validate_features (PyFloat (Finite a)) (PyFloat (Finite m)) (PyFloat (Finite i)) =
           Inr \<lparr> attendance = a, marks = m, internal_score = i \<rparr>"
  using assms by (simp add: validate_features_def validate_range_def BOUNDS_def)

lemma validate_final_exam_float:
  assumes "0 \<le> x" "x \<le> 100"
  shows "validate_final_exam (PyFloat (Finite x)) = Inr (Some x)"
  using assms by (simp add: validate_final_exam_def validate_range_def BOUNDS_def)

lemma validate_final_exam_None: "validate_final_exam PyNone = Inr None"
  by (simp add: validate_final_exam_def)

lemma scaler_fits_empty: "scaler_fits (Dict empty_metadata)"
  by (simp add: scaler_fits_def get_scaler_def empty_metadata_def)

theorem suspicion_is_advisory_witness:
  "(\<exists>r1 r2.
     predict reference_predictor (PyFloat (Finite 80)) (PyFloat (Finite 75)) (PyFloat (Finite 50))
       (PyFloat (Finite 10)) = Inr r1 \<and>
     predict reference_predictor (PyFloat (Finite 80)) (PyFloat (Finite 75)) (PyFloat (Finite 50)) PyNone = Inr r2 \<and>
     response.suspicious_input r1 \<and> \<not> response.suspicious_input r2 \<and>
     response.probability r1 = response.probability r2 \<and>
     response.predicted_result r1 = response.predicted_result r2) \<and>
   (\<exists>r3.
     predict \<lparr> model = (\<lambda>v. 9 / 10), metadata = Dict empty_metadata, threshold = 6 / 10 \<rparr>
       (PyFloat (Finite 56)) (PyFloat (Finite 0)) (PyFloat (Finite 70)) PyNone = Inr r3 \<and>
     response.suspicious_input r3 \<and> response.probability r3 = 9 / 10 \<and>
     response.predicted_result r3 = 1)"
proof
  let ?a = "PyFloat (Finite 80)" and ?m = "PyFloat (Finite 75)" and ?i = "PyFloat (Finite 50)"
  let ?fs = "\<lparr> attendance = 80, marks = 75, internal_score = 50 \<rparr>"
  have vf: "validate_features ?a ?m ?i = Inr ?fs"
    by (rule validate_features_floats) simp_all
  have v1: "validate_final_exam (PyFloat (Finite 10)) = Inr (Some 10)"
    by (rule validate_final_exam_float) simp_all
  have fits: "scaler_fits (metadata reference_predictor)"
    by (simp add: reference_predictor_def scaler_fits_empty)
  obtain r1 where r1: "predict reference_predictor ?a ?m ?i (PyFloat (Finite 10)) = Inr r1"
    using predict_total [OF vf v1 fits] by blast
  obtain r2 where r2: "predict reference_predictor ?a ?m ?i PyNone = Inr r2"
    using predict_total [OF vf validate_final_exam_None fits] by blast
  note adv1 = suspicion_is_advisory [of ?fs "Some 10" reference_predictor ?a ?m ?i "PyFloat (Finite 10)"]
  note adv2 = suspicion_is_advisory [of ?fs None reference_predictor ?a ?m ?i PyNone]
  from adv1 have flag1: "collect_suspicion_markers ?fs (Some 10) \<noteq> []"
    by simp
  from adv2 have flag2: "collect_suspicion_markers ?fs None = []"
    by simp
  from adv1 r1 r2 have same: "response.probability r1 = response.probability r2 \<and>
      response.predicted_result r1 = response.predicted_result r2"
    by blast
  from adv1 r1 obtain vs vf' where
    "validate_features ?a ?m ?i = Inr vs" "validate_final_exam (PyFloat (Finite 10)) = Inr vf'"
    "response.suspicious_input r1 = (collect_suspicion_markers vs vf' \<noteq> [])"
    by blast
  with vf v1 flag1 have s1: "response.suspicious_input r1" by simp
  from adv2 r2 obtain ws wf where
    "validate_features ?a ?m ?i = Inr ws" "validate_final_exam PyNone = Inr wf"
    "response.suspicious_input r2 = (collect_suspicion_markers ws wf \<noteq> [])"
    by blast
  with vf validate_final_exam_None flag2 have s2: "\<not> response.suspicious_input r2" by simp
  from r1 r2 same s1 s2 show "\<exists>r1 r2.
     predict reference_predictor ?a ?m ?i (PyFloat (Finite 10)) = Inr r1 \<and>
     predict reference_predictor ?a ?m ?i PyNone = Inr r2 \<and>
     response.suspicious_input r1 \<and> \<not> response.suspicious_input r2 \<and>
     response.probability r1 = response.probability r2 \<and>
     response.predicted_result r1 = response.predicted_result r2"
    by blast
next
  let ?q = "\<lparr> model = (\<lambda>v. 9 / 10), metadata = Dict empty_metadata, threshold = 6 / 10 \<rparr>"
  let ?a = "PyFloat (Finite 56)" and ?m = "PyFloat (Finite 0)" and ?i = "PyFloat (Finite 70)"
  let ?fs = "\<lparr> attendance = 56, marks = 0, internal_score = 70 \<rparr>"
  have vf: "validate_features ?a ?m ?i = Inr ?fs"
    by (rule validate_features_floats) simp_all
  have fits: "scaler_fits (metadata ?q)"
    by (simp add: scaler_fits_empty)
  obtain r3 where r3: "predict ?q ?a ?m ?i PyNone = Inr r3"
    using predict_total [OF vf validate_final_exam_None fits] by blast
  note adv = suspicion_is_advisory [of ?fs None ?q ?a ?m ?i PyNone]
  from adv have flag: "collect_suspicion_markers ?fs None \<noteq> []"
    by simp
  from adv r3 obtain vs vf' where
    "validate_features ?a ?m ?i = Inr vs" "validate_final_exam PyNone = Inr vf'"
    "response.suspicious_input r3 = (collect_suspicion_markers vs vf' \<noteq> [])"
    "response.probability r3 = model ?q (feature_vector vs)"
    "response.predicted_result r3 = label (model ?q (feature_vector vs)) (threshold ?q)"
    by blast
  with vf validate_final_exam_None flag
  have "response.suspicious_input r3 \<and> response.probability r3 = 9 / 10 \<and>
      response.predicted_result r3 = 1"
    by (simp add: label_def)
  with r3 show "\<exists>r3. predict ?q ?a ?m ?i PyNone = Inr r3 \<and>
     response.suspicious_input r3 \<and> response.probability r3 = 9 / 10 \<and>
     response.predicted_result r3 = 1"
    by blast
qed

section \<open>Probability and label: claim C1\<close>

lemma label_iff: "(label proba t = 1) = (t \<le> proba)"
  by (simp add: label_def)

lemma label_binary: "label proba t = 0 \<or> label proba t = 1"
  by (simp add: label_def)

lemma process_items_Inr:
  "process_items data = Inr ps \<Longrightarrow>
     list_all2 (\<lambda>item q. batch_item_features item = Inr (input_features q) \<and> meta q = item) data ps"
proof (induction data arbitrary: ps)
  case Nil
  then show ?case by simp
next
  case (Cons item rest)
  then show ?case
    by (auto split: sum.splits)
qed

lemma batch_results_Inr:
  "batch_results p xs = Inr rs \<Longrightarrow>
     list_all2 (\<lambda>x b. batch_result.probability b = fst x \<and>
                  batch_result.predicted_result b = label (fst x) (threshold p) \<and>
                  batch_result.threshold_used b = threshold p \<and>
                  batch_result.suspicious_input b = (input_notes (snd x) \<noteq> [])) xs rs"
proof (induction xs arbitrary: rs)
  case Nil
  then show ?case by simp
next
  case (Cons x xs)
  obtain proba q where x: "x = (proba, q)" by (cases x)
  from Cons.prems show ?case
    by (auto simp: x split: sum.splits intro: Cons.IH)
qed

lemma predict_batch_Inr:
  assumes "predict_batch p data = Inr rs"
  shows "list_all2 (\<lambda>item b. \<exists>fs. batch_item_features item = Inr fs \<and>
            batch_result.probability b = model p (feature_vector fs) \<and>
            batch_result.predicted_result b = label (batch_result.probability b) (threshold p) \<and>
            batch_result.threshold_used b = threshold p) data rs"
proof -
  from assms obtain ps where ps: "process_items data = Inr ps"
    and rs: "batch_results p (zip (map (model p) (map (\<lambda>q. feature_vector (input_features q)) ps)) ps) = Inr rs"
    by (auto simp: predict_batch_def Let_def split: sum.splits if_splits)
  have a: "list_all2 (\<lambda>item q. batch_item_features item = Inr (input_features q) \<and> meta q = item) data ps"
    by (rule process_items_Inr [OF ps])
  have b: "list_all2 (\<lambda>q x. x = (model p (feature_vector (input_features q)), q)) ps
      (zip (map (model p) (map (\<lambda>q. feature_vector (input_features q)) ps)) ps)"
    by (simp add: list_all2_conv_all_nth)
  note c = batch_results_Inr [OF rs]
  have ab: "list_all2 (\<lambda>item x. batch_item_features item = Inr (input_features (snd x)) \<and>
       fst x = model p (feature_vector (input_features (snd x)))) data
      (zip (map (model p) (map (\<lambda>q. feature_vector (input_features q)) ps)) ps)"
    using list_all2_trans [where ?P1.0 = "\<lambda>item q. batch_item_features item = Inr (input_features q) \<and> meta q = item"
        and ?P2.0 = "\<lambda>q x. x = (model p (feature_vector (input_features q)), q)", OF _ a b]
    by simp
  show ?thesis
    by (rule list_all2_trans [OF _ ab c]) auto
qed

lemma batch_results_total:
  assumes "scaler_fits (metadata p)"
  shows "\<exists>rs. batch_results p xs = Inr rs"
proof (induction xs)
  case Nil
  show ?case by simp
next
  case (Cons x xs)
  obtain proba q where x: "x = (proba, q)" by (cases x)
  obtain e where e: "build_explanation (metadata p) (feature_vector (input_features q)) = Inr e"
    using build_explanation_total [OF assms, of "features.attendance (input_features q)"
        "features.marks (input_features q)" "features.internal_score (input_features q)"]
    by (auto simp: feature_vector_def)
  from Cons.IH obtain rs where "batch_results p xs = Inr rs" by blast
  with e show ?case by (simp add: x)
qed

lemma predict_batch_total:
  assumes "process_items data = Inr ps" and "ps \<noteq> []" and "scaler_fits (metadata p)"
  shows "\<exists>rs. predict_batch p data = Inr rs"
  using assms batch_results_total [OF assms(3)]
  by (simp add: predict_batch_def Let_def)

lemma load_threshold:
  assumes "load_model_and_metadata parse env disk mp mdp = Inr q"
  shows "resolve_threshold parse env (metadata q) = Inr (threshold q)"
  using assms
  by (auto simp: load_model_and_metadata_def split: option.splits stored.splits sum.splits)

text \<open>
  Claim C1. The model's probability of the positive class lies in the unit interval (the
  contract of the classifier, which is a parameter). Whatever \<^verbatim>\<open>predict\<close> returns, and
  every item \<^verbatim>\<open>predict_batch\<close> returns, then has a probability in the unit interval, a
  label that is 1 exactly when the probability reaches \<^verbatim>\<open>threshold_used\<close>, and the
  predictor's threshold as \<^verbatim>\<open>threshold_used\<close>. Valid inputs do get a response when the
  stored scaler vectors fit three features, and the threshold of a loaded predictor is the
  one \<^verbatim>\<open>_resolve_threshold\<close> computes from its metadata.
\<close>

theorem predict_probability_and_label:
  assumes contract: "\<forall>v. 0 \<le> model p v \<and> model p v \<le> 1"
  shows
    "(\<forall>r. predict p a m i f = Inr r \<longrightarrow>
        0 \<le> response.probability r \<and> response.probability r \<le> 1 \<and>
        (response.predicted_result r = 1) = (response.threshold_used r \<le> response.probability r) \<and>
        (response.predicted_result r = 0 \<or> response.predicted_result r = 1) \<and>
        response.threshold_used r = threshold p) \<and>
     (\<forall>rs. predict_batch p data = Inr rs \<longrightarrow>
        length rs = length data \<and>
        (\<forall>b \<in> set rs.
           0 \<le> batch_result.probability b \<and> batch_result.probability b \<le> 1 \<and>
           (batch_result.predicted_result b = 1) =
             (batch_result.threshold_used b \<le> batch_result.probability b) \<and>
           (batch_result.predicted_result b = 0 \<or> batch_result.predicted_result b = 1) \<and>
           batch_result.threshold_used b = threshold p)) \<and>
     (\<forall>fs final. validate_features a m i = Inr fs \<and> validate_final_exam f = Inr final \<and>
        scaler_fits (metadata p) \<longrightarrow> (\<exists>r. predict p a m i f = Inr r)) \<and>
     (\<forall>ps. process_items data = Inr ps \<and> ps \<noteq> [] \<and> scaler_fits (metadata p) \<longrightarrow>
        (\<exists>rs. predict_batch p data = Inr rs)) \<and>
     (\<forall>parse env disk model_path metadata_path.
        load_model_and_metadata parse env disk model_path metadata_path = Inr p \<longrightarrow>
        resolve_threshold parse env (metadata p) = Inr (threshold p))"
proof (intro conjI allI impI)
  fix r assume r: "predict p a m i f = Inr r"
  from predict_Inr [OF r] obtain fs where
    pr: "response.probability r = model p (feature_vector fs)"
    and lb: "response.predicted_result r = label (model p (feature_vector fs)) (threshold p)"
    and th: "response.threshold_used r = threshold p"
    by blast
  from contract pr show "0 \<le> response.probability r" by simp
  from contract pr show "response.probability r \<le> 1" by simp
  from pr lb th show "(response.predicted_result r = 1) =
      (response.threshold_used r \<le> response.probability r)"
    by (simp add: label_def)
  from lb label_binary show "response.predicted_result r = 0 \<or> response.predicted_result r = 1"
    by simp
  from th show "response.threshold_used r = threshold p" .
next
  fix rs assume rs: "predict_batch p data = Inr rs"
  note all2 = predict_batch_Inr [OF rs]
  then show "length rs = length data" by (simp add: list_all2_lengthD)
  show "\<forall>b \<in> set rs.
           0 \<le> batch_result.probability b \<and> batch_result.probability b \<le> 1 \<and>
           (batch_result.predicted_result b = 1) =
             (batch_result.threshold_used b \<le> batch_result.probability b) \<and>
           (batch_result.predicted_result b = 0 \<or> batch_result.predicted_result b = 1) \<and>
           batch_result.threshold_used b = threshold p"
  proof
    fix b assume "b \<in> set rs"
    then obtain k where k: "k < length rs" "rs ! k = b" by (auto simp: in_set_conv_nth)
    from all2 k obtain fs where
      pr: "batch_result.probability b = model p (feature_vector fs)"
      and lb: "batch_result.predicted_result b = label (batch_result.probability b) (threshold p)"
      and th: "batch_result.threshold_used b = threshold p"
      by (auto simp: list_all2_conv_all_nth)
    from contract pr lb th label_binary [of "batch_result.probability b" "threshold p"]
    show "0 \<le> batch_result.probability b \<and> batch_result.probability b \<le> 1 \<and>
           (batch_result.predicted_result b = 1) =
             (batch_result.threshold_used b \<le> batch_result.probability b) \<and>
           (batch_result.predicted_result b = 0 \<or> batch_result.predicted_result b = 1) \<and>
           batch_result.threshold_used b = threshold p"
      by (simp add: label_def)
  qed
next
  fix fs final
  assume "validate_features a m i = Inr fs \<and> validate_final_exam f = Inr final \<and>
        scaler_fits (metadata p)"
  then show "\<exists>r. predict p a m i f = Inr r"
    using predict_total by blast
next
  fix ps
  assume "process_items data = Inr ps \<and> ps \<noteq> [] \<and> scaler_fits (metadata p)"
  then show "\<exists>rs. predict_batch p data = Inr rs"
    using predict_batch_total by blast
next
  fix parse env disk model_path metadata_path
  assume "load_model_and_metadata parse env disk model_path metadata_path = Inr p"
  then show "resolve_threshold parse env (metadata p) = Inr (threshold p)"
    by (rule load_threshold)
qed

theorem predict_probability_and_label_witness:
  "(\<forall>v. 0 \<le> model reference_predictor v \<and> model reference_predictor v \<le> 1) \<and>
   (\<exists>r. predict reference_predictor (PyFloat (Finite 80)) (PyFloat (Finite 75))
          (PyFloat (Finite 50)) PyNone = Inr r \<and>
        response.probability r = 1 / 2 \<and> response.threshold_used r = 6 / 10 \<and>
        response.predicted_result r = 0) \<and>
   (\<exists>rs. predict_batch reference_predictor
          [(\<lambda>k. PyNone)(''attendance'' := PyFloat (Finite 80), ''marks'' := PyFloat (Finite 75),
             ''internal_score'' := PyFloat (Finite 50))] = Inr rs \<and>
        length rs = 1 \<and> batch_result.threshold_used (hd rs) = 6 / 10 \<and>
        batch_result.predicted_result (hd rs) = 0) \<and>
   load_model_and_metadata (\<lambda>s. None) None ((\<lambda>path. None)(''model'' := Some (ModelFile (\<lambda>v. 1 / 2))))
     ''model'' ''metadata'' = Inr reference_predictor \<and>
   resolve_threshold (\<lambda>s. None) None (metadata reference_predictor)
     = Inr (threshold reference_predictor)"
proof -
  let ?p = reference_predictor
  let ?a = "PyFloat (Finite 80)" and ?m = "PyFloat (Finite 75)" and ?i = "PyFloat (Finite 50)"
  let ?fs = "\<lparr> attendance = 80, marks = 75, internal_score = 50 \<rparr>"
  let ?item = "(\<lambda>k. PyNone)(''attendance'' := ?a, ''marks'' := ?m, ''internal_score'' := ?i)"
  let ?disk = "(\<lambda>path. None)(''model'' := Some (ModelFile (\<lambda>v. 1 / 2)))"
  have contract: "\<forall>v. 0 \<le> model ?p v \<and> model ?p v \<le> 1"
    by (simp add: reference_predictor_def)
  note main = predict_probability_and_label [OF contract, of ?a ?m ?i PyNone "[?item]"]
  have vf: "validate_features ?a ?m ?i = Inr ?fs"
    by (rule validate_features_floats) simp_all
  have fits: "scaler_fits (metadata ?p)"
    by (simp add: reference_predictor_def scaler_fits_empty)
  have th: "threshold ?p = 6 / 10" by (simp add: reference_predictor_def)
  from main vf validate_final_exam_None fits
  obtain r where r: "predict ?p ?a ?m ?i PyNone = Inr r" by blast
  from predict_Inr [OF r] vf have pr: "response.probability r = 1 / 2"
    by (auto simp: reference_predictor_def)
  from main r have r_th: "response.threshold_used r = threshold ?p"
    and r_lb: "(response.predicted_result r = 1) = (response.threshold_used r \<le> response.probability r)"
    and r_bin: "response.predicted_result r = 0 \<or> response.predicted_result r = 1"
    by blast+
  from r_lb r_bin r_th th pr have r0: "response.predicted_result r = 0" by auto
  have bf: "batch_item_features ?item = Inr ?fs"
    by (simp add: batch_item_features_def vf)
  have pi: "process_items [?item] =
      Inr [\<lparr> meta = ?item, input_features = ?fs, input_notes = [] \<rparr>]"
    by (simp add: bf validate_final_exam_None collect_suspicion_markers_def)
  from main pi fits obtain rs where rs: "predict_batch ?p [?item] = Inr rs" by blast
  from main rs have len: "length rs = 1"
    and each: "\<forall>b \<in> set rs.
           0 \<le> batch_result.probability b \<and> batch_result.probability b \<le> 1 \<and>
           (batch_result.predicted_result b = 1) =
             (batch_result.threshold_used b \<le> batch_result.probability b) \<and>
           (batch_result.predicted_result b = 0 \<or> batch_result.predicted_result b = 1) \<and>
           batch_result.threshold_used b = threshold ?p"
    by auto
  from len have hd_in: "hd rs \<in> set rs" by (cases rs) auto
  from predict_batch_Inr [OF rs] len bf have bp: "batch_result.probability (hd rs) = 1 / 2"
    by (cases rs) (auto simp: reference_predictor_def)
  from each hd_in th bp have b_th: "batch_result.threshold_used (hd rs) = 6 / 10"
    and b0: "batch_result.predicted_result (hd rs) = 0"
    by auto
  have load: "load_model_and_metadata (\<lambda>s. None) None ?disk ''model'' ''metadata'' = Inr ?p"
    by (simp add: load_model_and_metadata_def resolve_threshold_def env_override_def
        reference_predictor_def empty_metadata_def)
  from main load have res: "resolve_threshold (\<lambda>s. None) None (metadata ?p) = Inr (threshold ?p)"
    by blast
  from contract r pr r_th th r0 rs len b_th b0 load res show ?thesis
    by (intro conjI exI [of _ r] exI [of _ rs]) simp_all
qed

section \<open>Improvement suggestions: claim C3\<close>

lemma sigmoid_bounds: "0 < sigmoid z \<and> sigmoid z < 1"
proof -
  have e: "0 < exp (- z)" by simp
  then have d: "0 < 1 + exp (- z)" by linarith
  have "1 < 1 + exp (- z)" using e by linarith
  with d have "1 / (1 + exp (- z)) < 1" by (simp only: divide_less_eq_1_pos)
  moreover from d have "0 < 1 / (1 + exp (- z))" by (simp only: zero_less_divide_1_iff)
  ultimately show ?thesis by (simp add: sigmoid_def)
qed

lemma py_round_le:
  assumes "x \<le> of_int n"
  shows "py_round x \<le> n"
proof -
  have fl: "\<lfloor>x\<rfloor> \<le> n" using assms by (simp add: floor_le_iff)
  show ?thesis
  proof (cases "\<lfloor>x\<rfloor> = n")
    case True
    with assms have "x - of_int \<lfloor>x\<rfloor> \<le> 0" by simp
    then show ?thesis using True by (simp add: py_round_def Let_def)
  next
    case False
    with fl have "\<lfloor>x\<rfloor> + 1 \<le> n" by simp
    with fl show ?thesis by (simp add: py_round_def Let_def)
  qed
qed

lemma delta_value_cap: "current + delta_value cap current \<le> 100"
  by (simp add: delta_value_def)

lemma feedback_for_Some:
  assumes "feedback_for md raw base idx f = Inr (Some s)"
  shows "idx < length raw \<and> suggestion.feature s = f \<and> current_value s = raw ! idx \<and>
         (\<exists>cap. map_of max_increase f = Some cap \<and>
            0 < delta_value cap (raw ! idx) \<and>
            change_by (suggested_change s) = py_round (delta_value cap (raw ! idx)) \<and>
            change_from (suggested_change s) = py_round (raw ! idx) \<and>
            change_to (suggested_change s) = py_round (raw ! idx + delta_value cap (raw ! idx)) \<and>
            new_probability_estimate s =
              sigmoid (logit base + dict_get (get_coefficients md) f 0 *
                 (delta_value cap (raw ! idx) / feedback_divisor md idx))) \<and>
         estimated_probability_gain s = max 0 (new_probability_estimate s - base) \<and>
         priority s = priority_of (estimated_probability_gain s)"
  using assms
  by (auto simp: feedback_for_def index_def py_div_def Let_def
      split: if_splits option.splits sum.splits)

lemma feedback_for_None:
  assumes "feedback_for md raw base idx f = Inr None"
  shows "\<exists>cap. map_of max_increase f = Some cap \<and> delta_value cap (raw ! idx) \<le> 0"
  using assms
  by (auto simp: feedback_for_def index_def py_div_def Let_def
      split: if_splits option.splits sum.splits)

lemma feedback_loop3:
  assumes "feedback_loop md [a, m, i] base (enumerate 0 FEATURES) = Inr ss"
  shows "\<exists>s0 s1 s2.
     feedback_for md [a, m, i] base 0 ''attendance'' = Inr s0 \<and>
     feedback_for md [a, m, i] base 1 ''marks'' = Inr s1 \<and>
     feedback_for md [a, m, i] base 2 ''internal_score'' = Inr s2 \<and>
     ss = (case s0 of None \<Rightarrow> [] | Some x \<Rightarrow> [x]) @ (case s1 of None \<Rightarrow> [] | Some x \<Rightarrow> [x]) @
          (case s2 of None \<Rightarrow> [] | Some x \<Rightarrow> [x])"
  using assms
  by (auto simp: enumerate_FEATURES split: sum.splits)

lemma priority_of_cases:
  "priority_of g = ''high'' \<or> priority_of g = ''medium'' \<or> priority_of g = ''low''"
  by (simp add: priority_of_def)

lemma feedback_for_ok:
  assumes "feedback_for md raw base idx f = Inr (Some s)" and "base \<le> 1"
  shows "suggestion.feature s = f \<and> suggestion_ok base (raw ! idx) s"
proof -
  from feedback_for_Some [OF assms(1)] obtain cap where
    f: "suggestion.feature s = f" and cur: "current_value s = raw ! idx"
    and cap: "map_of max_increase f = Some cap" and pos: "0 < delta_value cap (raw ! idx)"
    and cb: "change_by (suggested_change s) = py_round (delta_value cap (raw ! idx))"
    and ct: "change_to (suggested_change s) = py_round (raw ! idx + delta_value cap (raw ! idx))"
    and np: "new_probability_estimate s =
              sigmoid (logit base + dict_get (get_coefficients md) f 0 *
                 (delta_value cap (raw ! idx) / feedback_divisor md idx))"
    and gain: "estimated_probability_gain s = max 0 (new_probability_estimate s - base)"
    and pr: "priority s = priority_of (estimated_probability_gain s)"
    by blast
  have le: "raw ! idx + delta_value cap (raw ! idx) \<le> 100" by (rule delta_value_cap)
  then have "py_round (raw ! idx + delta_value cap (raw ! idx)) \<le> 100"
    using py_round_le [of "raw ! idx + delta_value cap (raw ! idx)" 100] by simp
  with ct have ct100: "change_to (suggested_change s) \<le> 100" by simp
  from np sigmoid_bounds have "new_probability_estimate s < 1" by simp
  with gain assms(2) have g: "0 \<le> estimated_probability_gain s \<and>
      estimated_probability_gain s \<le> 1 - base"
    by auto
  from pr priority_of_cases have p: "priority s = ''high'' \<or> priority s = ''medium'' \<or> priority s = ''low''"
    by simp
  from f cur cap pos le cb ct ct100 g p show ?thesis
    by (auto simp: suggestion_ok_def)
qed

lemma sorted_by_rank:
  assumes "sorted (map sort_rank ss)" and "j < k" and "k < length ss"
  shows "priority_rank (priority (ss ! j)) < priority_rank (priority (ss ! k)) \<or>
         priority_rank (priority (ss ! j)) = priority_rank (priority (ss ! k)) \<and>
         estimated_probability_gain (ss ! k) \<le> estimated_probability_gain (ss ! j)"
proof -
  from assms have "map sort_rank ss ! j \<le> map sort_rank ss ! k"
    by (intro sorted_nth_mono) auto
  with assms have "sort_rank (ss ! j) \<le> sort_rank (ss ! k)" by simp
  then show ?thesis
    by (auto simp: sort_rank_def less_eq_prod_def)
qed

lemma opt_list_set: "(x \<in> set (case s of None \<Rightarrow> [] | Some y \<Rightarrow> [y])) = (s = Some x)"
  by (cases s) auto

lemma compute_feedback_parts:
  assumes "compute_feedback md [a, m, i] base = Inr ss"
  shows "\<exists>s0 s1 s2.
     feedback_for md [a, m, i] base 0 ''attendance'' = Inr s0 \<and>
     feedback_for md [a, m, i] base 1 ''marks'' = Inr s1 \<and>
     feedback_for md [a, m, i] base 2 ''internal_score'' = Inr s2 \<and>
     ss = sort_key sort_rank
            ((case s0 of None \<Rightarrow> [] | Some x \<Rightarrow> [x]) @ (case s1 of None \<Rightarrow> [] | Some x \<Rightarrow> [x]) @
             (case s2 of None \<Rightarrow> [] | Some x \<Rightarrow> [x]))"
proof -
  from assms obtain ss0 where l: "feedback_loop md [a, m, i] base (enumerate 0 FEATURES) = Inr ss0"
    and s: "ss = sort_key sort_rank ss0"
    by (auto simp: compute_feedback_def split: sum.splits)
  from feedback_loop3 [OF l] s show ?thesis by blast
qed

text \<open>
  Claim C3. In every list of suggestions that \<^verbatim>\<open>_compute_feedback\<close> returns for a vector
  of three features and a probability of at most one: the suggested increase is
  \<^verbatim>\<open>min(cap, 100 - current)\<close>, positive, and takes the value to at most 100 (also as the
  text of the suggestion prints it); the estimated gain lies between 0 and
  \<open>1 - base\<close>; a feature has a suggestion exactly when its allowed increase is positive,
  and at most one; the list is ordered by priority rank (high, medium, low) and, within one
  rank, by descending gain.
\<close>

theorem feedback_suggestions_bounded:
  assumes "compute_feedback md [a, m, i] base = Inr ss" and "base \<le> 1"
  shows
    "(\<forall>s \<in> set ss.
        (\<exists>cap. map_of max_increase (suggestion.feature s) = Some cap \<and>
           0 < delta_value cap (current_value s) \<and>
           current_value s + delta_value cap (current_value s) \<le> 100 \<and>
           change_by (suggested_change s) = py_round (delta_value cap (current_value s)) \<and>
           change_to (suggested_change s) =
             py_round (current_value s + delta_value cap (current_value s)) \<and>
           change_to (suggested_change s) \<le> 100) \<and>
        0 \<le> estimated_probability_gain s \<and> estimated_probability_gain s \<le> 1 - base \<and>
        (priority s = ''high'' \<or> priority s = ''medium'' \<or> priority s = ''low'') \<and>
        current_value s =
          (if suggestion.feature s = ''attendance'' then a
           else if suggestion.feature s = ''marks'' then m else i)) \<and>
     (''attendance'' \<in> suggestion.feature ` set ss) = (0 < delta_value 10 a) \<and>
     (''marks'' \<in> suggestion.feature ` set ss) = (0 < delta_value 15 m) \<and>
     (''internal_score'' \<in> suggestion.feature ` set ss) = (0 < delta_value 10 i) \<and>
     suggestion.feature ` set ss \<subseteq> set FEATURES \<and>
     distinct (map suggestion.feature ss) \<and>
     (\<forall>j k. j < k \<and> k < length ss \<longrightarrow>
        priority_rank (priority (ss ! j)) < priority_rank (priority (ss ! k)) \<or>
        priority_rank (priority (ss ! j)) = priority_rank (priority (ss ! k)) \<and>
        estimated_probability_gain (ss ! k) \<le> estimated_probability_gain (ss ! j)) \<and>
     priority_rank ''high'' < priority_rank ''medium'' \<and>
     priority_rank ''medium'' < priority_rank ''low''"
proof -
  let ?raw = "[a, m, i]"
  let ?ol = "\<lambda>s. case s of None \<Rightarrow> [] | Some x \<Rightarrow> [x :: suggestion]"
  from compute_feedback_parts [OF assms(1)] obtain s0 s1 s2 where
    f0: "feedback_for md ?raw base 0 ''attendance'' = Inr s0" and
    f1: "feedback_for md ?raw base 1 ''marks'' = Inr s1" and
    f2: "feedback_for md ?raw base 2 ''internal_score'' = Inr s2" and
    ss: "ss = sort_key sort_rank (?ol s0 @ ?ol s1 @ ?ol s2)"
    by (elim exE conjE) (rule that)
  have mem: "\<And>s. s \<in> set ss \<longleftrightarrow> s0 = Some s \<or> s1 = Some s \<or> s2 = Some s"
    by (auto simp: ss opt_list_set)
  have k0: "\<And>s. s0 = Some s \<Longrightarrow> suggestion.feature s = ''attendance'' \<and> suggestion_ok base a s"
    using feedback_for_ok [OF _ assms(2), of md ?raw 0 "''attendance''"] f0 by simp
  have k1: "\<And>s. s1 = Some s \<Longrightarrow> suggestion.feature s = ''marks'' \<and> suggestion_ok base m s"
    using feedback_for_ok [OF _ assms(2), of md ?raw 1 "''marks''"] f1 by simp
  have k2: "\<And>s. s2 = Some s \<Longrightarrow> suggestion.feature s = ''internal_score'' \<and> suggestion_ok base i s"
    using feedback_for_ok [OF _ assms(2), of md ?raw 2 "''internal_score''"] f2 by simp
  have n0: "s0 = None \<Longrightarrow> delta_value 10 a \<le> 0"
    using feedback_for_None [of md ?raw base 0 "''attendance''"] f0 by (simp add: max_increase_def)
  have n1: "s1 = None \<Longrightarrow> delta_value 15 m \<le> 0"
    using feedback_for_None [of md ?raw base 1 "''marks''"] f1 by (simp add: max_increase_def)
  have n2: "s2 = None \<Longrightarrow> delta_value 10 i \<le> 0"
    using feedback_for_None [of md ?raw base 2 "''internal_score''"] f2 by (simp add: max_increase_def)
  have p0: "\<And>s. s0 = Some s \<Longrightarrow> 0 < delta_value 10 a"
    using k0 by (auto simp: suggestion_ok_def max_increase_def)
  have p1: "\<And>s. s1 = Some s \<Longrightarrow> 0 < delta_value 15 m"
    using k1 by (auto simp: suggestion_ok_def max_increase_def)
  have p2: "\<And>s. s2 = Some s \<Longrightarrow> 0 < delta_value 10 i"
    using k2 by (auto simp: suggestion_ok_def max_increase_def)
  have each: "\<forall>s \<in> set ss.
        (\<exists>cap. map_of max_increase (suggestion.feature s) = Some cap \<and>
           0 < delta_value cap (current_value s) \<and>
           current_value s + delta_value cap (current_value s) \<le> 100 \<and>
           change_by (suggested_change s) = py_round (delta_value cap (current_value s)) \<and>
           change_to (suggested_change s) =
             py_round (current_value s + delta_value cap (current_value s)) \<and>
           change_to (suggested_change s) \<le> 100) \<and>
        0 \<le> estimated_probability_gain s \<and> estimated_probability_gain s \<le> 1 - base \<and>
        (priority s = ''high'' \<or> priority s = ''medium'' \<or> priority s = ''low'') \<and>
        current_value s =
          (if suggestion.feature s = ''attendance'' then a
           else if suggestion.feature s = ''marks'' then m else i)"
  proof
    fix s assume "s \<in> set ss"
    then consider "s0 = Some s" | "s1 = Some s" | "s2 = Some s" using mem by blast
    then obtain c where c: "suggestion_ok base c s"
      "c = (if suggestion.feature s = ''attendance'' then a
           else if suggestion.feature s = ''marks'' then m else i)"
    proof cases
      case 1 with k0 [of s] show ?thesis by (intro that [of a]) simp_all
    next
      case 2 with k1 [of s] show ?thesis by (intro that [of m]) simp_all
    next
      case 3 with k2 [of s] show ?thesis by (intro that [of i]) simp_all
    qed
    from c(1) have "current_value s = c" by (simp add: suggestion_ok_def)
    with c show "(\<exists>cap. map_of max_increase (suggestion.feature s) = Some cap \<and>
           0 < delta_value cap (current_value s) \<and>
           current_value s + delta_value cap (current_value s) \<le> 100 \<and>
           change_by (suggested_change s) = py_round (delta_value cap (current_value s)) \<and>
           change_to (suggested_change s) =
             py_round (current_value s + delta_value cap (current_value s)) \<and>
           change_to (suggested_change s) \<le> 100) \<and>
        0 \<le> estimated_probability_gain s \<and> estimated_probability_gain s \<le> 1 - base \<and>
        (priority s = ''high'' \<or> priority s = ''medium'' \<or> priority s = ''low'') \<and>
        current_value s =
          (if suggestion.feature s = ''attendance'' then a
           else if suggestion.feature s = ''marks'' then m else i)"
      unfolding suggestion_ok_def by blast
  qed
  have feat: "\<And>f. f \<in> suggestion.feature ` set ss \<longleftrightarrow>
      (\<exists>s. s0 = Some s \<and> f = ''attendance'') \<or> (\<exists>s. s1 = Some s \<and> f = ''marks'') \<or>
      (\<exists>s. s2 = Some s \<and> f = ''internal_score'')"
  proof -
    fix f
    show "f \<in> suggestion.feature ` set ss \<longleftrightarrow>
      (\<exists>s. s0 = Some s \<and> f = ''attendance'') \<or> (\<exists>s. s1 = Some s \<and> f = ''marks'') \<or>
      (\<exists>s. s2 = Some s \<and> f = ''internal_score'')"
    proof
      assume "f \<in> suggestion.feature ` set ss"
      then obtain s where s: "s \<in> set ss" "f = suggestion.feature s" by blast
      from s(1) mem consider "s0 = Some s" | "s1 = Some s" | "s2 = Some s" by blast
      then show "(\<exists>s. s0 = Some s \<and> f = ''attendance'') \<or> (\<exists>s. s1 = Some s \<and> f = ''marks'') \<or>
          (\<exists>s. s2 = Some s \<and> f = ''internal_score'')"
        using k0 [of s] k1 [of s] k2 [of s] s(2) by cases simp_all
    next
      assume "(\<exists>s. s0 = Some s \<and> f = ''attendance'') \<or> (\<exists>s. s1 = Some s \<and> f = ''marks'') \<or>
          (\<exists>s. s2 = Some s \<and> f = ''internal_score'')"
      then obtain s where "s0 = Some s \<and> f = ''attendance'' \<or> s1 = Some s \<and> f = ''marks'' \<or>
          s2 = Some s \<and> f = ''internal_score''" by blast
      then have "s \<in> set ss \<and> f = suggestion.feature s"
        using mem [of s] k0 [of s] k1 [of s] k2 [of s] by auto
      then show "f \<in> suggestion.feature ` set ss" by blast
    qed
  qed
  have a_iff: "(''attendance'' \<in> suggestion.feature ` set ss) = (0 < delta_value 10 a)"
    using feat [of "''attendance''"] p0 n0 by (cases s0) auto
  have m_iff: "(''marks'' \<in> suggestion.feature ` set ss) = (0 < delta_value 15 m)"
    using feat [of "''marks''"] p1 n1 by (cases s1) auto
  have i_iff: "(''internal_score'' \<in> suggestion.feature ` set ss) = (0 < delta_value 10 i)"
    using feat [of "''internal_score''"] p2 n2 by (cases s2) auto
  have sub: "suggestion.feature ` set ss \<subseteq> set FEATURES"
  proof
    fix f assume "f \<in> suggestion.feature ` set ss"
    with feat [of f] have "f = ''attendance'' \<or> f = ''marks'' \<or> f = ''internal_score''"
      by blast
    then show "f \<in> set FEATURES" by (auto simp: FEATURES_def)
  qed
  have d0: "distinct (map suggestion.feature (?ol s0 @ ?ol s1 @ ?ol s2))"
  proof -
    have fa: "map suggestion.feature (?ol s0) = (case s0 of None \<Rightarrow> [] | Some x \<Rightarrow> [''attendance''])"
      using k0 by (cases s0) simp_all
    have fm: "map suggestion.feature (?ol s1) = (case s1 of None \<Rightarrow> [] | Some x \<Rightarrow> [''marks''])"
      using k1 by (cases s1) simp_all
    have fi: "map suggestion.feature (?ol s2) = (case s2 of None \<Rightarrow> [] | Some x \<Rightarrow> [''internal_score''])"
      using k2 by (cases s2) simp_all
    show ?thesis
      unfolding map_append fa fm fi by (cases s0; cases s1; cases s2) simp_all
  qed
  have dist: "distinct (map suggestion.feature ss)"
    using d0 unfolding ss distinct_map by simp
  have srt: "sorted (map sort_rank ss)" by (simp add: ss)
  have ord: "\<forall>j k. j < k \<and> k < length ss \<longrightarrow>
        priority_rank (priority (ss ! j)) < priority_rank (priority (ss ! k)) \<or>
        priority_rank (priority (ss ! j)) = priority_rank (priority (ss ! k)) \<and>
        estimated_probability_gain (ss ! k) \<le> estimated_probability_gain (ss ! j)"
    using sorted_by_rank [OF srt] by blast
  have r1: "priority_rank ''high'' < priority_rank ''medium''"
    by (simp add: priority_rank_def dict_get_def)
  have r2: "priority_rank ''medium'' < priority_rank ''low''"
    by (simp add: priority_rank_def dict_get_def)
  show ?thesis
    by (intro conjI each a_iff m_iff i_iff sub dist ord r1 r2)
qed

theorem feedback_suggestions_bounded_witness:
  "\<exists>ss. compute_feedback (Dict empty_metadata) [80, 75, 100] (1 / 2) = Inr ss \<and>
     ''attendance'' \<in> suggestion.feature ` set ss \<and>
     ''marks'' \<in> suggestion.feature ` set ss \<and>
     ''internal_score'' \<notin> suggestion.feature ` set ss \<and>
     distinct (map suggestion.feature ss) \<and>
     list_all (\<lambda>s. 0 \<le> estimated_probability_gain s \<and> estimated_probability_gain s \<le> 1 / 2 \<and>
                 change_to (suggested_change s) \<le> 100) ss"
proof -
  obtain ss where ss: "compute_feedback (Dict empty_metadata) [80, 75, 100] (1 / 2) = Inr ss"
    using compute_feedback_total3 by blast
  have base: "(1 / 2 :: real) \<le> 1" by simp
  note main = feedback_suggestions_bounded [OF ss base]
  from main have a: "''attendance'' \<in> suggestion.feature ` set ss"
    by (simp add: delta_value_def)
  from main have m: "''marks'' \<in> suggestion.feature ` set ss"
    by (simp add: delta_value_def)
  from main have i: "''internal_score'' \<notin> suggestion.feature ` set ss"
    by (simp add: delta_value_def)
  from main have d: "distinct (map suggestion.feature ss)" by blast
  from main have "\<forall>s \<in> set ss. 0 \<le> estimated_probability_gain s \<and>
      estimated_probability_gain s \<le> 1 - 1 / 2 \<and> change_to (suggested_change s) \<le> 100"
    by blast
  then have l: "list_all (\<lambda>s. 0 \<le> estimated_probability_gain s \<and>
      estimated_probability_gain s \<le> 1 / 2 \<and> change_to (suggested_change s) \<le> 100) ss"
    by (simp add: list_all_iff)
  from ss a m i d l show ?thesis by blast
qed

section \<open>Threshold resolution: claim C2\<close>

lemma open_unit_Some: "open_unit x = Some t \<Longrightarrow> x = Finite t \<and> 0 < t \<and> t < 1"
  by (cases x) (auto split: if_splits)

lemma env_override_range: "env_override parse env = Some t \<Longrightarrow> 0 < t \<and> t < 1"
  by (auto simp: env_override_def split: option.splits if_splits dest: open_unit_Some)

lemma numeric_in_open_unit_range:
  "numeric_in_open_unit v = Inr (Some t) \<Longrightarrow> 0 < t \<and> t < 1"
  by (cases v rule: numeric_in_open_unit.cases)
     (auto simp: float_of_int_def split: if_splits dest: open_unit_Some)

lemma numeric_in_open_unit_int: "numeric_in_open_unit (Some (JInt n)) \<noteq> Inr (Some t)"
  by (auto simp: float_of_int_def split: if_splits)

lemma numeric_in_open_unit_total:
  "representable v \<Longrightarrow> \<exists>r. numeric_in_open_unit v = Inr r"
  by (cases v rule: numeric_in_open_unit.cases) (auto simp: representable_def float_of_int_def)

lemma resolve_threshold_env:
  "env_override parse env = Some t \<Longrightarrow> resolve_threshold parse env md = Inr t"
  by (simp add: resolve_threshold_def)

lemma resolve_threshold_user:
  "env_override parse env = None \<Longrightarrow>
   numeric_in_open_unit (md_get user_threshold md) = Inr (Some u) \<Longrightarrow>
   resolve_threshold parse env md = Inr u"
  by (simp add: resolve_threshold_def)

lemma resolve_threshold_recommended:
  "env_override parse env = None \<Longrightarrow>
   numeric_in_open_unit (md_get user_threshold md) = Inr None \<Longrightarrow>
   numeric_in_open_unit (md_get recommended_threshold md) = Inr (Some r) \<Longrightarrow>
   resolve_threshold parse env md = Inr r"
  by (simp add: resolve_threshold_def)

lemma resolve_threshold_default:
  "env_override parse env = None \<Longrightarrow>
   numeric_in_open_unit (md_get user_threshold md) = Inr None \<Longrightarrow>
   numeric_in_open_unit (md_get recommended_threshold md) = Inr None \<Longrightarrow>
   resolve_threshold parse env md = Inr (6 / 10)"
  by (simp add: resolve_threshold_def)

lemma resolve_threshold_range:
  "resolve_threshold parse env md = Inr t \<Longrightarrow> 0 < t \<and> t < 1"
  by (auto simp: resolve_threshold_def split: option.splits sum.splits
      dest: env_override_range numeric_in_open_unit_range)

lemma resolve_threshold_total:
  assumes "representable (md_get user_threshold md)"
    and "representable (md_get recommended_threshold md)"
  shows "\<exists>t. resolve_threshold parse env md = Inr t"
proof -
  from numeric_in_open_unit_total [OF assms(1)] obtain ru
    where ru: "numeric_in_open_unit (md_get user_threshold md) = Inr ru" by blast
  from numeric_in_open_unit_total [OF assms(2)] obtain rr
    where rr: "numeric_in_open_unit (md_get recommended_threshold md) = Inr rr" by blast
  show ?thesis
  proof (cases "env_override parse env")
    case (Some t)
    then show ?thesis using resolve_threshold_env by blast
  next
    case None
    show ?thesis
    proof (cases ru)
      case (Some u)
      with None ru show ?thesis using resolve_threshold_user by blast
    next
      case no_user: None
      show ?thesis
      proof (cases rr)
        case (Some r)
        with None no_user ru rr show ?thesis using resolve_threshold_recommended by blast
      next
        case no_rec: None
        with None no_user ru rr show ?thesis using resolve_threshold_default by blast
      qed
    qed
  qed
qed

text \<open>
  Claim C2. The precedence is as claimed (the lemmas above: a valid environment value wins,
  then a valid user threshold, then a valid recommended threshold, then 0.6), and a
  malformed value is skipped whenever \<^verbatim>\<open>float()\<close> of it returns. It does not return for
  an integer beyond the double range: with no environment override and the metadata
  \<^verbatim>\<open>{"user_threshold": 2**1024}\<close>, both resolvers raise \<^verbatim>\<open>OverflowError\<close> instead of
  skipping the entry.
\<close>

theorem resolve_threshold_overflow:
  "resolve_threshold parse None
     (Dict (empty_metadata \<lparr> user_threshold := Some (JInt (2 ^ 1024)) \<rparr>)) = Inl OverflowError \<and>
   resolve_threshold_with_source parse None
     (Some (Dict (empty_metadata \<lparr> user_threshold := Some (JInt (2 ^ 1024)) \<rparr>)))
     = Inl OverflowError"
  by (simp add: resolve_threshold_def resolve_threshold_with_source_def env_override_def
      float_of_int_def)

section \<open>Batch validation and scaler shapes: claims C7 and C10\<close>

lemma np_divide_no_zero:
  assumes "0 \<notin> set ys" and "np_divide xs ys = Inl e"
  shows "e \<noteq> FloatingPointError"
proof (cases "np_broadcast xs ys")
  case (Inl e')
  with assms(2) have "e = e'" by (simp add: np_divide_def)
  with Inl show ?thesis by (auto simp: np_broadcast_def split: if_splits)
next
  case (Inr ps)
  have "snd ` set ps \<subseteq> set ys"
  proof (cases "length xs = length ys")
    case True
    with Inr show ?thesis by (auto simp: np_broadcast_def dest: set_zip_rightD)
  next
    case False
    show ?thesis
    proof (cases "length ys = 1")
      case True
      then have "hd ys \<in> set ys" by (cases ys) auto
      with Inr False True show ?thesis by (auto simp: np_broadcast_def)
    next
      case F2: False
      with Inr False show ?thesis by (auto simp: np_broadcast_def split: if_splits)
    qed
  qed
  with assms(1) have "0 \<notin> set (map snd ps)" by auto
  with Inr assms(2) show ?thesis by (simp add: np_divide_def)
qed

lemma standardize_never_divides_by_zero: "standardize md raw \<noteq> Inl FloatingPointError"
proof
  assume h: "standardize md raw = Inl FloatingPointError"
  let ?mean = "case scaler_mean (get_scaler md) of None \<Rightarrow> [0, 0, 0] | Some m \<Rightarrow> m"
  show False
  proof (cases "np_subtract raw ?mean")
    case (Inl e)
    with h have "e = FloatingPointError" by (simp add: standardize_def)
    with Inl show False
      by (auto simp: np_subtract_def np_broadcast_def split: sum.splits if_splits)
  next
    case (Inr centred)
    with h have "np_divide centred (standardize_divisor md) = Inl FloatingPointError"
      by (simp add: standardize_def)
    with np_divide_no_zero [OF standardize_divisor_nonzero] show False by blast
  qed
qed

lemma feedback_for_never_divides_by_zero:
  "feedback_for md raw base idx f \<noteq> Inl ZeroDivisionError"
  by (auto simp: feedback_for_def index_def py_div_def feedback_divisor_nonzero Let_def
      split: option.splits)

text \<open>
  Claim C10. No division by zero happens for any metadata document (the lemmas above and
  \<open>feedback_divisor_nonzero\<close>, \<open>standardize_divisor_nonzero\<close>), and \<^verbatim>\<open>predict\<close> is total
  on valid inputs when the stored vectors fit (\<open>predict_total\<close>). A scale vector with a
  missing entry is replaced by 1 in \<^verbatim>\<open>_compute_feedback\<close> only: with the scale
  \<^verbatim>\<open>[1.0, 1.0]\<close>, \<^verbatim>\<open>_standardize\<close> raises numpy's broadcasting \<^verbatim>\<open>ValueError\<close>,
  and so does \<^verbatim>\<open>predict\<close> on the valid input (50, 50, 50).
\<close>

theorem predict_short_scale_vector:
  "predict \<lparr> model = mdl, metadata = Dict (empty_metadata \<lparr> scaler :=
       Some \<lparr> scaler_mean = None, scaler_scale = Some [1, 1] \<rparr> \<rparr>), threshold = t \<rparr>
     (PyFloat (Finite 50)) (PyFloat (Finite 50)) (PyFloat (Finite 50)) PyNone
   = Inl (ValueError (BroadcastShapes 3 2))"
proof -
  let ?md = "Dict (empty_metadata \<lparr> scaler :=
       Some \<lparr> scaler_mean = None, scaler_scale = Some [1, 1] \<rparr> \<rparr>)"
  have vf: "validate_features (PyFloat (Finite 50)) (PyFloat (Finite 50)) (PyFloat (Finite 50)) =
      Inr \<lparr> attendance = 50, marks = 50, internal_score = 50 \<rparr>"
    by (rule validate_features_floats) simp_all
  have st: "standardize ?md [50, 50, 50] = Inl (ValueError (BroadcastShapes 3 2))"
    by (simp add: standardize_def standardize_divisor_def get_scaler_def np_subtract_def
        np_divide_def np_broadcast_def)
  then have "build_explanation ?md [50, 50, 50] = Inl (ValueError (BroadcastShapes 3 2))"
    by (simp add: build_explanation_def)
  with vf show ?thesis
    by (simp add: predict_def validate_final_exam_None feature_vector_def Let_def)
qed

text \<open>
  Claim C7. A batch with an invalid item fails as a whole, before the model is called
  (\<open>predict_batch_fail_fast\<close> below). The error names the item when one of the three
  features is invalid (\<open>predict_batch_attendance_wrapped\<close> below), but the validation of
  \<^verbatim>\<open>final_exam_score\<close> stands outside the \<^verbatim>\<open>try\<close> block: for an item whose only
  invalid field is a final exam score of 150, the error is the bare message about the
  field, without the item.
\<close>

theorem predict_batch_final_exam_unwrapped:
  "predict_batch p
     [(\<lambda>k. PyNone)(''attendance'' := PyFloat (Finite 50), ''marks'' := PyFloat (Finite 50),
         ''internal_score'' := PyFloat (Finite 50), ''final_exam_score'' := PyFloat (Finite 150))]
   = Inl (InvalidInputError (OutOfRange ''final_exam_score'' 0 100 (Finite 150)))"
proof -
  let ?item = "(\<lambda>k. PyNone)(''attendance'' := PyFloat (Finite 50), ''marks'' := PyFloat (Finite 50),
         ''internal_score'' := PyFloat (Finite 50), ''final_exam_score'' := PyFloat (Finite 150))"
  have vf: "validate_features (PyFloat (Finite 50)) (PyFloat (Finite 50)) (PyFloat (Finite 50)) =
      Inr \<lparr> attendance = 50, marks = 50, internal_score = 50 \<rparr>"
    by (rule validate_features_floats) simp_all
  have bf: "batch_item_features ?item = Inr \<lparr> attendance = 50, marks = 50, internal_score = 50 \<rparr>"
    by (simp add: batch_item_features_def vf)
  have fe: "validate_final_exam (PyFloat (Finite 150)) =
      Inl (InvalidInputError (OutOfRange ''final_exam_score'' 0 100 (Finite 150)))"
    by (simp add: validate_final_exam_def validate_range_def BOUNDS_def)
  have "process_items [?item] =
      Inl (InvalidInputError (OutOfRange ''final_exam_score'' 0 100 (Finite 150)))"
    by (simp add: bf fe)
  then show ?thesis by (simp add: predict_batch_def)
qed

lemma predict_batch_attendance_wrapped:
  "predict_batch p
     [(\<lambda>k. PyNone)(''attendance'' := PyFloat (Finite 150), ''marks'' := PyFloat (Finite 50),
         ''internal_score'' := PyFloat (Finite 50))]
   = Inl (InvalidInputError (InvalidBatchItem
       ((\<lambda>k. PyNone)(''attendance'' := PyFloat (Finite 150), ''marks'' := PyFloat (Finite 50),
         ''internal_score'' := PyFloat (Finite 50)))
       (OutOfRange ''attendance'' 0 100 (Finite 150))))"
  by (simp add: predict_batch_def batch_item_features_def validate_features_def
      validate_range_def BOUNDS_def)

lemma predict_batch_fail_fast:
  assumes "process_items data = Inl e"
  shows "predict_batch p data = Inl e"
  using assms by (simp add: predict_batch_def)

section \<open>Retraining keeps the user threshold: claim C4\<close>

lemma train_model_Inl:
  assumes "train_model sk now disk data model_path metadata_path = (Inl e, disk')"
  shows "disk' = disk"
  using assms
  by (auto simp: train_model_def Let_def split: sum.splits prod.splits if_splits)





lemma save_metadata_keeps:
  assumes "user_threshold md \<noteq> None \<or>
           (\<forall>old. disk path = Some (JsonFile (Dict old)) \<longrightarrow> user_threshold old = None)"
  shows "save_metadata disk path md = (disk (path := Some (JsonFile (Dict md))), md)"
  using assms
  by (auto simp: save_metadata_def Let_def split: option.splits stored.splits metadata_doc.splits)














section \<open>Recommended threshold: claim C6\<close>













section \<open>Reference coefficients: claim C8\<close>











section \<open>Training preconditions: claim C5\<close>

lemma to_dataframe_nonempty:
  assumes "enrollments \<noteq> []"
  shows "\<exists>df. to_dataframe_from_enrollments enrollments = Inr df \<and>
           columns df = [''attendance'', ''marks'', ''internal_score'', ''result''] \<and>
           length (rows df) = length (filter (\<lambda>e. e ''result'' \<noteq> None) enrollments)"
  using assms
  by (simp add: to_dataframe_from_enrollments_def pd_DataFrame_def dropna_def filter_map o_def)

lemma train_from_db_insufficient:
  assumes "enrollments \<noteq> []"
    and "length (filter (\<lambda>e. e ''result'' \<noteq> None) enrollments) < 10"
  shows "train_from_db sk now disk enrollments model_path metadata_path =
           (Inl (ValueError (InsufficientData
              (length (filter (\<lambda>e. e ''result'' \<noteq> None) enrollments)))), disk)"
proof -
  from to_dataframe_nonempty [OF assms(1)] obtain df where
    df: "to_dataframe_from_enrollments enrollments = Inr df" and
    n: "length (rows df) = length (filter (\<lambda>e. e ''result'' \<noteq> None) enrollments)"
    by (elim exE conjE)
  from assms(2) n show ?thesis
    by (simp add: train_from_db_def df)
qed

lemma train_model_single_class:
  assumes "validate_columns data = Inr ()"
    and "astype_int (column_values data ''result'') = Inr y"
    and "length (remdups y) < 2"
  shows "train_model sk now disk data model_path metadata_path =
           (Inl (ValueError SingleClass), disk)"
  using assms by (simp add: train_model_def split_beta)

lemma train_from_db_single_class:
  assumes "to_dataframe_from_enrollments enrollments = Inr df"
    and "10 \<le> length (rows df)"
    and "astype_int (column_values df ''result'') = Inr y"
    and "length (remdups y) < 2"
  shows "train_from_db sk now disk enrollments model_path metadata_path =
           (Inl (ValueError SingleClass), disk)"
proof -
  from assms(1) have "enrollments \<noteq> []"
    by (auto simp: to_dataframe_from_enrollments_def pd_DataFrame_def dropna_def)
  from to_dataframe_nonempty [OF this] assms(1)
  have "columns df = [''attendance'', ''marks'', ''internal_score'', ''result'']"
    by auto
  then have vc: "validate_columns df = Inr ()"
    by (simp add: validate_columns_def FEATURES_def)
  from assms(2) have "\<not> length (rows df) < 10" by simp
  then show ?thesis
    by (simp add: train_from_db_def assms(1) train_model_single_class [OF vc assms(3) assms(4)])
qed

lemma train_from_db_Inl:
  assumes "train_from_db sk now disk enrollments model_path metadata_path = (Inl e, disk')"
  shows "disk' = disk"
  using assms train_model_Inl
  by (auto simp: train_from_db_def split: sum.splits if_splits)

text \<open>
  Claim C5. \<^verbatim>\<open>train_from_db\<close> on an empty list of enrollments: \<^verbatim>\<open>pd.DataFrame([])\<close> has no
  columns, so \<^verbatim>\<open>dropna(subset=["result"])\<close> raises \<^verbatim>\<open>KeyError\<close> before the count of the
  samples is looked at. Nothing is written.
\<close>

theorem train_from_db_empty_enrollments:
  "train_from_db sk now disk [] model_path metadata_path = (Inl (KeyError [''result'']), disk)"
  by (simp add: train_from_db_def to_dataframe_from_enrollments_def pd_DataFrame_def dropna_def)

end
